theory Spec2Isabelle
  imports Main "HOL-Library.Word"
begin

section \<open>Common Go types\<close>

text \<open>
  Go's \<^verbatim>\<open>int64\<close> (and \<^verbatim>\<open>int\<close> on a 64-bit platform, and
  \<^verbatim>\<open>time.Duration\<close>) is a 64-bit word: \<open>+\<close> and \<open>*\<close> wrap around, comparisons are
  signed (\<open><s\<close>, \<open>\<le>s\<close>). A clock reading is the value \<^verbatim>\<open>time.Now().UnixNano()\<close>
  returns; every operation that reads the clock takes that reading as an argument.
\<close>

type_synonym int64 = "64 word"

text \<open>A Go \<^verbatim>\<open>error\<close> value, identified by the text \<^verbatim>\<open>err.Error()\<close> returns.\<close>

datatype go_error = Errorf (Error: string)

section \<open>memory\_cache.go\<close>

record Item =
  Value :: string
  Expiration :: int64

text \<open>The mutex of \<^verbatim>\<open>MemoryCache\<close> is not part of the sequential model.\<close>

record MemoryCache =
  items :: "string \<rightharpoonup> Item"

definition NewMemoryCache :: MemoryCache where
  "NewMemoryCache = \<lparr>items = Map.empty\<rparr>"

text \<open>
  \<^verbatim>\<open>Set\<close>: the clock is read and the duration added only when \<^verbatim>\<open>expiry > 0\<close>;
  otherwise \<^verbatim>\<open>expiration\<close> keeps its zero value.
\<close>

definition MemoryCache_Set :: "MemoryCache \<Rightarrow> int64 \<Rightarrow> string \<Rightarrow> string \<Rightarrow> int64 \<Rightarrow> MemoryCache" where
  "MemoryCache_Set c now key val expiry =
     (let expiration = (if 0 <s expiry then now + expiry else 0)
      in c\<lparr>items := (items c)(key \<mapsto> \<lparr>Value = val, Expiration = expiration\<rparr>)\<rparr>)"

text \<open>
  \<^verbatim>\<open>Get\<close> and \<^verbatim>\<open>Has\<close> have a pointer receiver; the model returns the cache after the
  call beside the result.
\<close>

definition MemoryCache_Get :: "MemoryCache \<Rightarrow> int64 \<Rightarrow> string \<Rightarrow> (string \<times> bool) \<times> MemoryCache" where
  "MemoryCache_Get c now key =
     (case items c key of
        None \<Rightarrow> (([], False), c)
      | Some item \<Rightarrow>
          if 0 <s Expiration item \<and> Expiration item <s now then (([], False), c)
          else ((Value item, True), c))"

definition MemoryCache_Delete :: "MemoryCache \<Rightarrow> string \<Rightarrow> MemoryCache" where
  "MemoryCache_Delete c key = c\<lparr>items := (items c)(key := None)\<rparr>"

definition MemoryCache_Has :: "MemoryCache \<Rightarrow> int64 \<Rightarrow> string \<Rightarrow> bool \<times> MemoryCache" where
  "MemoryCache_Has c now key =
     (case items c key of
        None \<Rightarrow> (False, c)
      | Some item \<Rightarrow>
          if 0 <s Expiration item \<and> Expiration item <s now then (False, c)
          else (True, c))"

text \<open>
  \<^verbatim>\<open>deleteExpired\<close> ranges over the map and deletes the entry it is visiting when that
  entry has expired; every entry present at the start is visited once.
\<close>

definition MemoryCache_deleteExpired :: "MemoryCache \<Rightarrow> int64 \<Rightarrow> MemoryCache" where
  "MemoryCache_deleteExpired c now =
     c\<lparr>items := (\<lambda>k. case items c k of
                        None \<Rightarrow> None
                      | Some v \<Rightarrow> if 0 <s Expiration v \<and> Expiration v <s now then None else Some v)\<rparr>"

text \<open>
  The janitor calls \<^verbatim>\<open>deleteExpired\<close> on every tick, for ever; a run of it up to some
  moment is the list of clock readings of the ticks so far.
\<close>

fun janitor :: "MemoryCache \<Rightarrow> int64 list \<Rightarrow> MemoryCache" where
  "janitor c [] = c"
| "janitor c (now # ticks) = janitor (MemoryCache_deleteExpired c now) ticks"

section \<open>The configuration (file\_storage.go, config.go)\<close>

record Config =
  HostURI :: string
  AuthorizationServerURI :: string
  ClientID :: string
  ClientSecret :: string
  AWSKey :: string
  AWSSecret :: string
  AWSRegion :: string
  AWSBucket :: string
  GCSKeyPath :: string
  GCSProjectID :: string
  GCSBucket :: string

section \<open>token\_manager.go\<close>

text \<open>\<^verbatim>\<open>ExpiresIn\<close> is a Go \<^verbatim>\<open>int\<close>, 64 bits wide on the platforms the service runs on.\<close>

record TokenResponse =
  AccessToken :: string
  TokenType :: string
  ExpiresIn :: int64

text \<open>
  The only implementation of the \<^verbatim>\<open>Cache\<close> interface in the repository is
  \<^verbatim>\<open>MemoryCache\<close>; the manager holds it directly.
\<close>

record CacheTokenManager =
  config :: Config
  cache :: MemoryCache
  tokenKey :: string
  tokenExpiry :: int64

definition Second :: int64 where
  "Second = 1000000000"

definition NewCacheTokenManager :: "Config \<Rightarrow> MemoryCache \<Rightarrow> CacheTokenManager" where
  "NewCacheTokenManager cfg c =
     \<lparr>config = cfg, cache = c, tokenKey = ''access_token'', tokenExpiry = 3550 * Second\<rparr>"

text \<open>
  What the outside world does with one token request, in the order in which
  \<^verbatim>\<open>GenerateToken\<close> meets it: \<^verbatim>\<open>http.NewRequest\<close> rejects the URL; \<^verbatim>\<open>client.Do\<close>
  fails; reading the body fails; \<^verbatim>\<open>json.Unmarshal\<close> rejects the body; or the body
  unmarshals into a \<^verbatim>\<open>TokenResponse\<close>. The status code of the response is never
  looked at by the code, so it is not part of the outcome.
\<close>

datatype token_exchange =
    NewRequestFails go_error
  | DoFails go_error
  | ReadAllFails go_error
  | UnmarshalFails go_error
  | Unmarshalled TokenResponse

text \<open>
  \<^verbatim>\<open>GenerateToken\<close>. Beside the manager it threads the number of token requests handed
  to the HTTP client so far; \<open>now\<close> is the clock reading \<^verbatim>\<open>cache.Set\<close> sees.
\<close>

definition CacheTokenManager_GenerateToken ::
  "CacheTokenManager \<Rightarrow> nat \<Rightarrow> int64 \<Rightarrow> token_exchange
     \<Rightarrow> (go_error + string) \<times> CacheTokenManager \<times> nat" where
  "CacheTokenManager_GenerateToken t requests now x =
     (case x of
        NewRequestFails err \<Rightarrow> (Inl err, t, requests)
      | DoFails err \<Rightarrow> (Inl err, t, Suc requests)
      | ReadAllFails err \<Rightarrow> (Inl err, t, Suc requests)
      | UnmarshalFails err \<Rightarrow> (Inl err, t, Suc requests)
      | Unmarshalled tokenResp \<Rightarrow>
          (Inr (AccessToken tokenResp),
           t\<lparr>cache := MemoryCache_Set (cache t) now (tokenKey t) (AccessToken tokenResp)
                         (ExpiresIn tokenResp * Second)\<rparr>,
           Suc requests))"

text \<open>
  \<^verbatim>\<open>GetToken\<close>: \<open>now_get\<close> is the clock reading of \<^verbatim>\<open>cache.Get\<close>, \<open>now_set\<close> and \<open>x\<close>
  are handed to \<^verbatim>\<open>GenerateToken\<close> on a miss.
\<close>

definition CacheTokenManager_GetToken ::
  "CacheTokenManager \<Rightarrow> nat \<Rightarrow> int64 \<Rightarrow> int64 \<Rightarrow> token_exchange
     \<Rightarrow> (go_error + string) \<times> CacheTokenManager \<times> nat" where
  "CacheTokenManager_GetToken t requests now_get now_set x =
     (case MemoryCache_Get (cache t) now_get (tokenKey t) of
        ((token, exists), c) \<Rightarrow>
          if \<not> exists then CacheTokenManager_GenerateToken (t\<lparr>cache := c\<rparr>) requests now_set x
          else (Inr token, t\<lparr>cache := c\<rparr>, requests))"

definition CacheTokenManager_HasToken :: "CacheTokenManager \<Rightarrow> int64 \<Rightarrow> bool \<times> CacheTokenManager" where
  "CacheTokenManager_HasToken t now =
     (case MemoryCache_Has (cache t) now (tokenKey t) of (b, c) \<Rightarrow> (b, t\<lparr>cache := c\<rparr>))"

section \<open>file\_storage.go: the response envelope\<close>

definition StatusSuccess :: string where
  "StatusSuccess = ''OK''"

definition StatusError :: string where
  "StatusError = ''ERR''"

text \<open>
  A \<^verbatim>\<open>time.Time\<close> is its distance in nanoseconds from the zero instant of the type,
  so that \<^verbatim>\<open>IsZero\<close> is the test for 0.
\<close>

type_synonym Time = int

record FileInfo =
  FileExt :: string
  FileID :: string
  FileMimeType :: string
  FileName :: string
  FileSize :: int
  PublicLink :: string
  Tag :: string
  Timestamp :: Time
  Bucket :: string

text \<open>\<^verbatim>\<open>StreamData\<close> is an open reader: the bytes it will deliver, or \<^verbatim>\<open>nil\<close>.\<close>

record FileResponse =
  Status :: string
  Message :: string
  Data :: string
  FileID :: string
  Info :: "FileInfo option"
  URL :: string
  ExpiredAt :: Time
  StringData :: string
  StreamData :: "string option"

text \<open>The composite literal \<^verbatim>\<open>FileResponse{}\<close>: every field at its zero value.\<close>

definition FileResponse_zero :: FileResponse where
  "FileResponse_zero =
     \<lparr>Status = [], Message = [], Data = [], FileID = [], Info = None, URL = [],
      ExpiredAt = 0, StringData = [], StreamData = None\<rparr>"

section \<open>file\_storage.go: the REST backend\<close>

text \<open>
  \<^verbatim>\<open>TokenManager\<close> is an interface: any implementation is a state of some type
  \<open>'s\<close> and the three methods acting on it.
\<close>

record 's TokenManager =
  GenerateToken :: "'s \<Rightarrow> (go_error + string) \<times> 's"
  GetToken :: "'s \<Rightarrow> (go_error + string) \<times> 's"
  HasToken :: "'s \<Rightarrow> bool \<times> 's"

text \<open>
  \<^verbatim>\<open>maxRetry\<close> and the attempt counter are Go \<^verbatim>\<open>int\<close>s; the counter only grows
  while it is below \<^verbatim>\<open>maxRetry\<close>, so it never overflows and \<open>int\<close> models both.
\<close>

record 's FileStorageManager =
  tokenManager :: "'s TokenManager"
  maxRetry :: int
  config :: Config

definition NewFileStorageManager :: "Config \<Rightarrow> 's TokenManager \<Rightarrow> 's FileStorageManager" where
  "NewFileStorageManager cfg tm = \<lparr>tokenManager = tm, maxRetry = 3, config = cfg\<rparr>"

definition SetMaxRetry :: "'s FileStorageManager \<Rightarrow> int \<Rightarrow> 's FileStorageManager" where
  "SetMaxRetry f n = f\<lparr>maxRetry := n\<rparr>"

record Request =
  Method :: string
  RequestURL :: string
  RequestBody :: "string option"
  Header :: "string \<rightharpoonup> string"

text \<open>An \<^verbatim>\<open>http.Response\<close>: its status code and what reading its body to the end gives.\<close>

datatype Response = Response (StatusCode: int) (ReadAll: "go_error + string")

text \<open>
  The world outside the process, as the REST operations meet it: whether
  \<^verbatim>\<open>http.NewRequest\<close> accepts a method and URL, what \<^verbatim>\<open>client.Do\<close> returns for the
  \<open>n\<close>-th request handed to it (counted from 0), and the JSON library.
\<close>

record Http =
  NewRequest_err :: "string \<Rightarrow> string \<Rightarrow> go_error option"
  Do :: "nat \<Rightarrow> Request \<Rightarrow> go_error + Response"
  Marshal :: "(string \<times> string) list \<Rightarrow> go_error + string"
  Unmarshal :: "string \<Rightarrow> go_error + FileResponse"

definition http_NewRequest :: "Http \<Rightarrow> string \<Rightarrow> string \<Rightarrow> string option \<Rightarrow> go_error + Request" where
  "http_NewRequest h method url body =
     (case NewRequest_err h method url of
        Some err \<Rightarrow> Inl err
      | None \<Rightarrow> Inr \<lparr>Method = method, RequestURL = url, RequestBody = body, Header = Map.empty\<rparr>)"

definition Header_Set :: "Request \<Rightarrow> string \<Rightarrow> string \<Rightarrow> Request" where
  "Header_Set req k v = req\<lparr>Header := (Header req)(k \<mapsto> v)\<rparr>"

text \<open>
  The state of one run of the retry loop: the local \<^verbatim>\<open>attempts\<close>, the state of the token
  manager, and two counters that observe the run: the requests handed to \<^verbatim>\<open>client.Do\<close> and
  the calls of \<^verbatim>\<open>f.tokenManager.GenerateToken()\<close> made by the loop itself.
\<close>

record 's Run =
  attempts :: int
  tm :: 's
  sent :: nat
  forced :: nat

definition start :: "'s \<Rightarrow> 's Run" where
  "start s = \<lparr>attempts = 0, tm = s, sent = 0, forced = 0\<rparr>"

text \<open>The request of one iteration, with its three headers.\<close>

definition with_headers :: "'s FileStorageManager \<Rightarrow> Request \<Rightarrow> string \<Rightarrow> Request" where
  "with_headers f req token =
     Header_Set (Header_Set (Header_Set req ''Content-Type'' ''application/json'') ''x-code'' token)
       ''x-client-id'' (ClientID (config f))"

text \<open>The two branches that end in \<^verbatim>\<open>continue\<close>: count the attempt, regenerate the token.\<close>

definition again :: "'s FileStorageManager \<Rightarrow> 's Run \<Rightarrow> 's \<Rightarrow> 's Run" where
  "again f r s =
     r\<lparr>attempts := attempts r + 1,
       tm := snd (GenerateToken (tokenManager f) s),
       sent := Suc (sent r),
       forced := Suc (forced r)\<rparr>"

text \<open>
  The \<^verbatim>\<open>for\<close> loop of \<^verbatim>\<open>UploadBase64File\<close>, \<^verbatim>\<open>Delete\<close> and \<^verbatim>\<open>GetFileById\<close>. The three
  copies in the source differ in the method, the URL and the body of the request only.
  The loop ends with an error or, at \<^verbatim>\<open>break\<close>, with the response.
\<close>

function retry_loop ::
  "'s FileStorageManager \<Rightarrow> Http \<Rightarrow> string \<Rightarrow> string \<Rightarrow> string option \<Rightarrow> 's Run
     \<Rightarrow> (go_error + Response) \<times> 's Run" where
  "retry_loop f h method url body r =
     (if maxRetry f \<le> attempts r then (Inl (Errorf ''exceeded maximum retry attempts''), r)
      else
        case GetToken (tokenManager f) (tm r) of
          (Inl err, s) \<Rightarrow> (Inl err, r\<lparr>tm := s\<rparr>)
        | (Inr token, s) \<Rightarrow>
            (case http_NewRequest h method url body of
               Inl err \<Rightarrow> (Inl err, r\<lparr>tm := s\<rparr>)
             | Inr req \<Rightarrow>
                 (case Do h (sent r) (with_headers f req token) of
                    Inl err \<Rightarrow> retry_loop f h method url body (again f r s)
                  | Inr resp \<Rightarrow>
                      if 500 \<le> StatusCode resp then retry_loop f h method url body (again f r s)
                      else (Inr resp, r\<lparr>tm := s, sent := Suc (sent r)\<rparr>))))"
  by pat_completeness auto
termination
  by (relation "measure (\<lambda>(f, h, method, url, body, r). nat (maxRetry f - attempts r))")
     (auto simp: again_def)

declare retry_loop.simps [simp del]

text \<open>After the loop: read the body, unmarshal it into a \<^verbatim>\<open>FileResponse\<close>.\<close>

definition parse_response :: "Http \<Rightarrow> Response \<Rightarrow> go_error + FileResponse" where
  "parse_response h resp =
     (case ReadAll resp of
        Inl err \<Rightarrow> Inl err
      | Inr body \<Rightarrow> Unmarshal h body)"

definition after_loop ::
  "Http \<Rightarrow> (go_error + Response) \<times> 's Run \<Rightarrow> (go_error + FileResponse) \<times> 's Run" where
  "after_loop h out =
     (case out of
        (Inl err, r) \<Rightarrow> (Inl err, r)
      | (Inr resp, r) \<Rightarrow> (parse_response h resp, r))"

definition UploadBase64File ::
  "'s FileStorageManager \<Rightarrow> Http \<Rightarrow> string \<Rightarrow> string \<Rightarrow> string \<Rightarrow> string \<Rightarrow> 's
     \<Rightarrow> (go_error + FileResponse) \<times> 's Run" where
  "UploadBase64File f h filename extension mimetype base64file s =
     (if filename = [] \<or> extension = [] \<or> mimetype = [] \<or> base64file = []
      then (Inl (Errorf ''invalid arguments''), start s)
      else
        case Marshal h [(''file_name'', filename), (''file_ext'', extension),
                        (''mime_type'', mimetype), (''binary_data_b64'', base64file)] of
          Inl err \<Rightarrow> (Inl err, start s)
        | Inr jsonData \<Rightarrow>
            after_loop h
              (retry_loop f h ''POST'' (HostURI (config f) @ ''/d/files'') (Some jsonData) (start s)))"

definition Delete ::
  "'s FileStorageManager \<Rightarrow> Http \<Rightarrow> string \<Rightarrow> 's \<Rightarrow> (go_error + FileResponse) \<times> 's Run" where
  "Delete f h fileID s =
     after_loop h
       (retry_loop f h ''DELETE'' (HostURI (config f) @ ''/d/files/'' @ fileID) None (start s))"

definition GetFileById ::
  "'s FileStorageManager \<Rightarrow> Http \<Rightarrow> string \<Rightarrow> 's \<Rightarrow> (go_error + FileResponse) \<times> 's Run" where
  "GetFileById f h fileID s =
     after_loop h
       (retry_loop f h ''GET'' (HostURI (config f) @ ''/d/files/'' @ fileID) None (start s))"

subsection \<open>Attempts of a run\<close>

text \<open>
  The state of the token manager when iteration \<open>n\<close> of the loop begins (counted from 0),
  every earlier iteration having ended in \<^verbatim>\<open>continue\<close>: each of those called
  \<^verbatim>\<open>GetToken\<close> and then \<^verbatim>\<open>GenerateToken\<close>.
\<close>

fun tm_at :: "'s FileStorageManager \<Rightarrow> 's \<Rightarrow> nat \<Rightarrow> 's" where
  "tm_at f s 0 = s"
| "tm_at f s (Suc n) =
     snd (GenerateToken (tokenManager f) (snd (GetToken (tokenManager f) (tm_at f s n))))"

text \<open>
  What iteration \<open>n\<close> meets: \<^verbatim>\<open>GetToken\<close> fails, \<^verbatim>\<open>http.NewRequest\<close> fails, or the
  request is sent and \<^verbatim>\<open>client.Do\<close> returns.
\<close>

datatype attempt = NoToken go_error | NoRequest go_error | Sent "go_error + Response"

definition attempt_at ::
  "'s FileStorageManager \<Rightarrow> Http \<Rightarrow> string \<Rightarrow> string \<Rightarrow> string option \<Rightarrow> 's \<Rightarrow> nat \<Rightarrow> attempt" where
  "attempt_at f h method url body s n =
     (case GetToken (tokenManager f) (tm_at f s n) of
        (Inl err, _) \<Rightarrow> NoToken err
      | (Inr token, _) \<Rightarrow>
          (case http_NewRequest h method url body of
             Inl err \<Rightarrow> NoRequest err
           | Inr req \<Rightarrow> Sent (Do h n (with_headers f req token))))"

text \<open>The attempt was sent and ended in a transport failure or a 5xx response.\<close>

fun transient :: "attempt \<Rightarrow> bool" where
  "transient (Sent (Inl err)) = True"
| "transient (Sent (Inr resp)) = (500 \<le> StatusCode resp)"
| "transient _ = False"

text \<open>The state of the run when iteration \<open>n\<close> begins after \<open>n\<close> transient attempts.\<close>

definition run_at :: "'s FileStorageManager \<Rightarrow> 's \<Rightarrow> nat \<Rightarrow> 's Run" where
  "run_at f s n = \<lparr>attempts = int n, tm = tm_at f s n, sent = n, forced = n\<rparr>"

text \<open>The requests of the three operations.\<close>

definition Upload_attempt ::
  "'s FileStorageManager \<Rightarrow> Http \<Rightarrow> string \<Rightarrow> 's \<Rightarrow> nat \<Rightarrow> attempt" where
  "Upload_attempt f h jsonData s n =
     attempt_at f h ''POST'' (HostURI (config f) @ ''/d/files'') (Some jsonData) s n"

definition Delete_attempt ::
  "'s FileStorageManager \<Rightarrow> Http \<Rightarrow> string \<Rightarrow> 's \<Rightarrow> nat \<Rightarrow> attempt" where
  "Delete_attempt f h fileID s n =
     attempt_at f h ''DELETE'' (HostURI (config f) @ ''/d/files/'' @ fileID) None s n"

definition GetFileById_attempt ::
  "'s FileStorageManager \<Rightarrow> Http \<Rightarrow> string \<Rightarrow> 's \<Rightarrow> nat \<Rightarrow> attempt" where
  "GetFileById_attempt f h fileID s n =
     attempt_at f h ''GET'' (HostURI (config f) @ ''/d/files/'' @ fileID) None s n"

text \<open>The arguments \<^verbatim>\<open>UploadBase64File\<close> marshals into the request body.\<close>

definition upload_fields :: "string \<Rightarrow> string \<Rightarrow> string \<Rightarrow> string \<Rightarrow> (string \<times> string) list" where
  "upload_fields filename extension mimetype base64file =
     [(''file_name'', filename), (''file_ext'', extension),
      (''mime_type'', mimetype), (''binary_data_b64'', base64file)]"

subsection \<open>A concrete REST host and token manager\<close>

text \<open>
  A token manager whose state counts the tokens generated so far and whose \<^verbatim>\<open>GetToken\<close>
  fails once \<open>good\<close> tokens have been generated; and a host that answers the first \<open>bad\<close>
  requests with 503 and every later one with 200.
\<close>

definition example_tm :: "nat \<Rightarrow> nat TokenManager" where
  "example_tm good =
     \<lparr>GenerateToken = (\<lambda>n. (Inr ''token'', Suc n)),
      GetToken = (\<lambda>n. (if n < good then Inr ''token'' else Inl (Errorf ''unauthorized''), n)),
      HasToken = (\<lambda>n. (n < good, n))\<rparr>"

definition example_config :: Config where
  "example_config =
     \<lparr>HostURI = ''http://files'', AuthorizationServerURI = ''http://auth'', ClientID = ''client'',
      ClientSecret = ''secret'', AWSKey = ''key'', AWSSecret = ''secret'', AWSRegion = ''eu'',
      AWSBucket = ''bucket'', GCSKeyPath = ''key.json'', GCSProjectID = ''project'',
      GCSBucket = ''bucket''\<rparr>"

definition example_manager :: "nat \<Rightarrow> nat FileStorageManager" where
  "example_manager good = NewFileStorageManager example_config (example_tm good)"

definition example_ok :: FileResponse where
  "example_ok = FileResponse_zero\<lparr>Status := StatusSuccess\<rparr>"

definition example_host :: "nat \<Rightarrow> Http" where
  "example_host bad =
     \<lparr>NewRequest_err = (\<lambda>method url. None),
      Do = (\<lambda>n req. Inr (Response (if n < bad then 503 else 200) (Inr ''{}''))),
      Marshal = (\<lambda>kv. Inr ''{}''),
      Unmarshal = (\<lambda>body. Inr example_ok)\<rparr>"

subsection \<open>Outcomes of a token exchange\<close>

text \<open>
  The exchange with the authorization server failed: the request could not be built or
  sent, or the body of the response could not be read.
\<close>

fun transport_failed :: "token_exchange \<Rightarrow> bool" where
  "transport_failed (NewRequestFails err) = True"
| "transport_failed (DoFails err) = True"
| "transport_failed (ReadAllFails err) = True"
| "transport_failed _ = False"

text \<open>The response arrived and \<^verbatim>\<open>json.Unmarshal\<close> rejected its body.\<close>

fun response_malformed :: "token_exchange \<Rightarrow> bool" where
  "response_malformed (UnmarshalFails err) = True"
| "response_malformed _ = False"

text \<open>A fresh token manager, and a token response that declares a lifetime of one hour.\<close>

definition example_token_manager :: CacheTokenManager where
  "example_token_manager = NewCacheTokenManager example_config NewMemoryCache"

definition example_token :: TokenResponse where
  "example_token = \<lparr>AccessToken = ''abc'', TokenType = ''Bearer'', ExpiresIn = 3600\<rparr>"

section \<open>file\_storage.go: the object-store backends\<close>

subsection \<open>The world the SDK calls act on\<close>

text \<open>
  An object store holds buckets, a bucket holds objects under keys. The local file system
  maps a path to the content of the file there. Byte slices are strings.
\<close>

record Object =
  Content :: string
  ContentType :: string
  Etag :: string
  Created :: Time

type_synonym Store = "string \<rightharpoonup> (string \<rightharpoonup> Object)"

record World =
  s3 :: Store
  gcs :: Store
  disk :: "string \<rightharpoonup> string"

text \<open>
  What the libraries do beyond the state of the world. A field \<open>\<dots>_err\<close> that is
  \<open>Some err\<close> makes that call fail with \<open>err\<close> whatever the state (no network, rejected
  credentials, no permission); \<open>Copy_err = Some (n, err)\<close> makes \<^verbatim>\<open>io.Copy\<close> fail after
  it has written \<open>n\<close> bytes. The other fields are the pure library functions the code
  calls: the signers, base64, the JSON decoder of the key file, and the tag the store
  gives to a content.
\<close>

record Sdk =
  NewSession_err :: "go_error option"
  PutObject_err :: "go_error option"
  DeleteObject_err :: "go_error option"
  GetObject_err :: "go_error option"
  ReadAll_err :: "go_error option"
  Create_err :: "go_error option"
  Copy_err :: "(nat \<times> go_error) option"
  Remove_err :: "go_error option"
  Presign :: "string \<Rightarrow> string \<Rightarrow> int64 \<Rightarrow> go_error + string"
  NewClient_err :: "go_error option"
  BucketAttrs_err :: "go_error option"
  Write_err :: "go_error option"
  Close_err :: "go_error option"
  ObjectAttrs_err :: "go_error option"
  ObjectDelete_err :: "go_error option"
  NewReader_err :: "go_error option"
  ReadFile_err :: "go_error option"
  KeyUnmarshal :: "string \<Rightarrow> go_error + string \<times> string"
  SignedURL :: "string \<Rightarrow> string \<Rightarrow> Time \<Rightarrow> string \<Rightarrow> string \<Rightarrow> go_error + string"
  EncodeToString :: "string \<Rightarrow> string"
  etag_of :: "string \<Rightarrow> string"

subsection \<open>Object store A: the S3 calls\<close>

definition NoSuchBucket :: go_error where
  "NoSuchBucket = Errorf ''NoSuchBucket: The specified bucket does not exist''"

definition NoSuchKey :: go_error where
  "NoSuchKey = Errorf ''NoSuchKey: The specified key does not exist.''"

definition s3_PutObject ::
  "Sdk \<Rightarrow> World \<Rightarrow> string \<Rightarrow> string \<Rightarrow> string \<Rightarrow> string \<Rightarrow> Time \<Rightarrow> go_error option \<times> World" where
  "s3_PutObject k w bucket key body ctype now =
     (case PutObject_err k of
        Some err \<Rightarrow> (Some err, w)
      | None \<Rightarrow>
          (case s3 w bucket of
             None \<Rightarrow> (Some NoSuchBucket, w)
           | Some objs \<Rightarrow>
               (None, w\<lparr>s3 := (s3 w)(bucket \<mapsto> objs(key \<mapsto>
                  \<lparr>Content = body, ContentType = ctype, Etag = etag_of k body, Created = now\<rparr>))\<rparr>)))"

text \<open>
  The service answers a \<^verbatim>\<open>DeleteObject\<close> for a key that is absent from an existing
  bucket like one for a key that is present: with success.
\<close>

definition s3_DeleteObject :: "Sdk \<Rightarrow> World \<Rightarrow> string \<Rightarrow> string \<Rightarrow> go_error option \<times> World" where
  "s3_DeleteObject k w bucket key =
     (case DeleteObject_err k of
        Some err \<Rightarrow> (Some err, w)
      | None \<Rightarrow>
          (case s3 w bucket of
             None \<Rightarrow> (Some NoSuchBucket, w)
           | Some objs \<Rightarrow> (None, w\<lparr>s3 := (s3 w)(bucket \<mapsto> objs(key := None))\<rparr>)))"

definition s3_GetObject :: "Sdk \<Rightarrow> World \<Rightarrow> string \<Rightarrow> string \<Rightarrow> go_error + Object" where
  "s3_GetObject k w bucket key =
     (case GetObject_err k of
        Some err \<Rightarrow> Inl err
      | None \<Rightarrow>
          (case s3 w bucket of
             None \<Rightarrow> Inl NoSuchBucket
           | Some objs \<Rightarrow> (case objs key of None \<Rightarrow> Inl NoSuchKey | Some obj \<Rightarrow> Inr obj)))"

subsection \<open>Object store B: the GCS calls\<close>

definition ErrBucketNotExist :: go_error where
  "ErrBucketNotExist = Errorf ''storage: bucket does not exist''"

definition ErrObjectNotExist :: go_error where
  "ErrObjectNotExist = Errorf ''storage: object does not exist''"

definition gcs_BucketAttrs :: "Sdk \<Rightarrow> World \<Rightarrow> string \<Rightarrow> go_error option" where
  "gcs_BucketAttrs k w bucket =
     (case BucketAttrs_err k of
        Some err \<Rightarrow> Some err
      | None \<Rightarrow> (case gcs w bucket of None \<Rightarrow> Some ErrBucketNotExist | Some objs \<Rightarrow> None))"

definition gcs_ObjectAttrs :: "Sdk \<Rightarrow> World \<Rightarrow> string \<Rightarrow> string \<Rightarrow> go_error + Object" where
  "gcs_ObjectAttrs k w bucket key =
     (case ObjectAttrs_err k of
        Some err \<Rightarrow> Inl err
      | None \<Rightarrow>
          (case gcs w bucket of
             None \<Rightarrow> Inl ErrBucketNotExist
           | Some objs \<Rightarrow> (case objs key of None \<Rightarrow> Inl ErrObjectNotExist | Some obj \<Rightarrow> Inr obj)))"

text \<open>The writer buffers what \<^verbatim>\<open>Write\<close> gives it; \<^verbatim>\<open>Close\<close> stores the object.\<close>

definition gcs_Write :: "Sdk \<Rightarrow> string \<Rightarrow> go_error option" where
  "gcs_Write k data = Write_err k"

definition gcs_Close ::
  "Sdk \<Rightarrow> World \<Rightarrow> string \<Rightarrow> string \<Rightarrow> string \<Rightarrow> string \<Rightarrow> Time \<Rightarrow> go_error option \<times> World" where
  "gcs_Close k w bucket key data ctype now =
     (case Close_err k of
        Some err \<Rightarrow> (Some err, w)
      | None \<Rightarrow>
          (case gcs w bucket of
             None \<Rightarrow> (Some ErrBucketNotExist, w)
           | Some objs \<Rightarrow>
               (None, w\<lparr>gcs := (gcs w)(bucket \<mapsto> objs(key \<mapsto>
                  \<lparr>Content = data, ContentType = ctype, Etag = etag_of k data, Created = now\<rparr>))\<rparr>)))"

definition gcs_Delete :: "Sdk \<Rightarrow> World \<Rightarrow> string \<Rightarrow> string \<Rightarrow> go_error option \<times> World" where
  "gcs_Delete k w bucket key =
     (case ObjectDelete_err k of
        Some err \<Rightarrow> (Some err, w)
      | None \<Rightarrow>
          (case gcs w bucket of
             None \<Rightarrow> (Some ErrBucketNotExist, w)
           | Some objs \<Rightarrow>
               (case objs key of
                  None \<Rightarrow> (Some ErrObjectNotExist, w)
                | Some obj \<Rightarrow> (None, w\<lparr>gcs := (gcs w)(bucket \<mapsto> objs(key := None))\<rparr>))))"

definition gcs_NewReader :: "Sdk \<Rightarrow> World \<Rightarrow> string \<Rightarrow> string \<Rightarrow> go_error + string" where
  "gcs_NewReader k w bucket key =
     (case NewReader_err k of
        Some err \<Rightarrow> Inl err
      | None \<Rightarrow>
          (case gcs w bucket of
             None \<Rightarrow> Inl ErrBucketNotExist
           | Some objs \<Rightarrow>
               (case objs key of None \<Rightarrow> Inl ErrObjectNotExist | Some obj \<Rightarrow> Inr (Content obj))))"

subsection \<open>Readers and the local file system\<close>

definition io_ReadAll :: "Sdk \<Rightarrow> string \<Rightarrow> go_error + string" where
  "io_ReadAll k content = (case ReadAll_err k of Some err \<Rightarrow> Inl err | None \<Rightarrow> Inr content)"

text \<open>\<^verbatim>\<open>os.Create\<close> creates the file or truncates the one that is there.\<close>

definition os_Create :: "Sdk \<Rightarrow> World \<Rightarrow> string \<Rightarrow> go_error option \<times> World" where
  "os_Create k w path =
     (case Create_err k of
        Some err \<Rightarrow> (Some err, w)
      | None \<Rightarrow> (None, w\<lparr>disk := (disk w)(path \<mapsto> [])\<rparr>))"

text \<open>
  \<^verbatim>\<open>io.Copy\<close> into the file just created at \<open>path\<close>: all of the content, or its first
  \<open>n\<close> bytes and an error.
\<close>

definition io_Copy :: "Sdk \<Rightarrow> World \<Rightarrow> string \<Rightarrow> string \<Rightarrow> go_error option \<times> World" where
  "io_Copy k w path content =
     (case Copy_err k of
        Some (n, err) \<Rightarrow> (Some err, w\<lparr>disk := (disk w)(path \<mapsto> take n content)\<rparr>)
      | None \<Rightarrow> (None, w\<lparr>disk := (disk w)(path \<mapsto> content)\<rparr>))"

text \<open>
  \<^verbatim>\<open>os.Remove\<close> unlinks the path, or fails and leaves the file where it is (the directory
  is not writable, the file is a mount point). That the file is still open does not
  prevent the unlinking.
\<close>

definition os_Remove :: "Sdk \<Rightarrow> World \<Rightarrow> string \<Rightarrow> go_error option \<times> World" where
  "os_Remove k w path =
     (case Remove_err k of
        Some err \<Rightarrow> (Some err, w)
      | None \<Rightarrow> (None, w\<lparr>disk := (disk w)(path := None)\<rparr>))"

definition ErrNotExist :: go_error where
  "ErrNotExist = Errorf ''no such file or directory''"

definition os_ReadFile :: "Sdk \<Rightarrow> World \<Rightarrow> string \<Rightarrow> go_error + string" where
  "os_ReadFile k w path =
     (case ReadFile_err k of
        Some err \<Rightarrow> Inl err
      | None \<Rightarrow> (case disk w path of None \<Rightarrow> Inl ErrNotExist | Some content \<Rightarrow> Inr content))"

subsection \<open>path/filepath\<close>

text \<open>
  \<^verbatim>\<open>filepath.Base\<close> on a system whose separator is the slash: the last element of the
  path, after trailing slashes are removed; \<^verbatim>\<open>"."\<close> for the empty path and \<^verbatim>\<open>"/"\<close> for a
  path of slashes only.
\<close>

definition filepath_Base :: "string \<Rightarrow> string" where
  "filepath_Base path =
     (if path = [] then ''.''
      else
        let stripped = rev (dropWhile (\<lambda>c. c = CHR ''/'') (rev path));
            element = rev (takeWhile (\<lambda>c. c \<noteq> CHR ''/'') (rev stripped))
        in if element = [] then ''/'' else element)"

text \<open>
  \<^verbatim>\<open>filepath.Ext\<close> scans from the end of the path towards its last separator and
  returns the suffix that begins at the first dot it meets; \<open>seen\<close> is what it has
  passed.
\<close>

fun ext_scan :: "string \<Rightarrow> string \<Rightarrow> string" where
  "ext_scan [] seen = []"
| "ext_scan (c # cs) seen =
     (if c = CHR ''/'' then []
      else if c = CHR ''.'' then c # seen
      else ext_scan cs (c # seen))"

definition filepath_Ext :: "string \<Rightarrow> string" where
  "filepath_Ext path = ext_scan (rev path) []"

text \<open>
  The slice expression \<^verbatim>\<open>s[:hi]\<close>; \<open>None\<close> is the run-time panic for bounds out of
  range.
\<close>

definition slice_to :: "string \<Rightarrow> int \<Rightarrow> string option" where
  "slice_to s hi = (if 0 \<le> hi \<and> hi \<le> int (length s) then Some (take (nat hi) s) else None)"

text \<open>A function that may panic instead of returning.\<close>

datatype 'a go = Panics | Returns 'a

text \<open>
  A \<^verbatim>\<open>multipart.FileHeader\<close>: its file name, its \<^verbatim>\<open>Content-Type\<close> header, whether
  \<^verbatim>\<open>Open\<close> fails, and what reading the opened file to the end gives.
\<close>

record FileHeader =
  Filename :: string
  ContentTypeHeader :: string
  Open_err :: "go_error option"
  Read :: "go_error + string"

text \<open>\<^verbatim>\<open>&FileResponse{Status: StatusError, Message: msg}\<close>.\<close>

definition failure :: "string \<Rightarrow> FileResponse" where
  "failure msg = FileResponse_zero\<lparr>Status := StatusError, Message := msg\<rparr>"

subsection \<open>Operations on object store A\<close>

definition GetAwsClient :: "'s FileStorageManager \<Rightarrow> Sdk \<Rightarrow> go_error + unit" where
  "GetAwsClient f k = (case NewSession_err k of Some err \<Rightarrow> Inl err | None \<Rightarrow> Inr ())"

text \<open>The extension of a file name without its dot, as the uploads compute it.\<close>

definition extension_of :: "string \<Rightarrow> string" where
  "extension_of name =
     (let extension = filepath_Ext name
      in if extension \<noteq> [] then tl extension else extension)"

text \<open>
  \<^verbatim>\<open>AwsUpload\<close>; \<open>uuid\<close> is the string of the fresh UUID, \<open>now\<close> the clock reading.
\<close>

definition AwsUpload ::
  "'s FileStorageManager \<Rightarrow> Sdk \<Rightarrow> World \<Rightarrow> FileHeader \<Rightarrow> string \<Rightarrow> string \<Rightarrow> string \<Rightarrow> Time
     \<Rightarrow> (go_error + FileResponse) go \<times> World" where
  "AwsUpload f k w file subdirectory bucketname uuid now =
     (case Open_err file of
        Some err \<Rightarrow> (Returns (Inl err), w)
      | None \<Rightarrow>
     (case Read file of
        Inl err \<Rightarrow> (Returns (Inl err), w)
      | Inr data \<Rightarrow>
     (let origFilename = filepath_Base (Filename file);
          extension = extension_of origFilename;
          uniqueFilename = uuid @ ''.'' @ extension;
          fileID = (if subdirectory \<noteq> [] then subdirectory @ ''/'' @ uniqueFilename
                    else uniqueFilename);
          bucketname = (if bucketname = [] then AWSBucket (config f) else bucketname)
      in
     (case GetAwsClient f k of
        Inl err \<Rightarrow> (Returns (Inr (failure (Error err))), w)
      | Inr s3Client \<Rightarrow>
     (case s3_PutObject k w bucketname fileID data (ContentTypeHeader file) now of
        (Some err, w') \<Rightarrow> (Returns (Inr (failure (Error err))), w')
      | (None, w') \<Rightarrow>
     (let publicURL = ''https://'' @ bucketname @ ''.s3.'' @ AWSRegion (config f)
                        @ ''.amazonaws.com/'' @ fileID
      in
     (case slice_to origFilename (int (length origFilename) - int (length extension) - 1) of
        None \<Rightarrow> (Panics, w')
      | Some name \<Rightarrow>
          (Returns (Inr (FileResponse_zero
             \<lparr>Status := StatusSuccess,
              Message := ''INSERT '' @ fileID,
              FileID := fileID,
              Info := Some \<lparr>FileExt = extension, FileID = fileID,
                            FileMimeType = ContentTypeHeader file, FileName = name,
                            FileSize = int (length data), PublicLink = publicURL, Tag = [],
                            Timestamp = now, Bucket = []\<rparr>\<rparr>)), w'))))))))"

definition AwsDelete ::
  "'s FileStorageManager \<Rightarrow> Sdk \<Rightarrow> World \<Rightarrow> string \<Rightarrow> string \<Rightarrow> (go_error + FileResponse) \<times> World" where
  "AwsDelete f k w awsFileID bucketname =
     (let bucketname = (if bucketname = [] then AWSBucket (config f) else bucketname)
      in
     (case GetAwsClient f k of
        Inl err \<Rightarrow> (Inr (failure (Error err)), w)
      | Inr s3Client \<Rightarrow>
     (case s3_DeleteObject k w bucketname awsFileID of
        (Some err, w') \<Rightarrow> (Inr (failure (Error err)), w')
      | (None, w') \<Rightarrow>
          (Inr (FileResponse_zero\<lparr>Status := StatusSuccess, Message := ''DELETE '' @ awsFileID\<rparr>),
           w'))))"

definition AwsGetFileById ::
  "'s FileStorageManager \<Rightarrow> Sdk \<Rightarrow> World \<Rightarrow> string \<Rightarrow> string \<Rightarrow> Time
     \<Rightarrow> (go_error + FileResponse) \<times> World" where
  "AwsGetFileById f k w awsFileID bucketname now =
     (let bucketname = (if bucketname = [] then AWSBucket (config f) else bucketname)
      in
     (case GetAwsClient f k of
        Inl err \<Rightarrow> (Inr (failure (Error err)), w)
      | Inr s3Client \<Rightarrow>
     (case s3_GetObject k w bucketname awsFileID of
        Inl err \<Rightarrow> (Inr (failure (Error err)), w)
      | Inr result \<Rightarrow>
     (case io_ReadAll k (Content result) of
        Inl err \<Rightarrow> (Inr (failure (Error err)), w)
      | Inr body \<Rightarrow>
     (let extension = extension_of awsFileID;
          publicURL = ''https://'' @ bucketname @ ''.s3.'' @ AWSRegion (config f)
                        @ ''.amazonaws.com/'' @ awsFileID
      in
        (Inr (FileResponse_zero
           \<lparr>Status := StatusSuccess,
            Data := EncodeToString k body,
            Info := Some \<lparr>FileExt = extension, FileID = awsFileID,
                          FileMimeType = ContentType result, FileName = [],
                          FileSize = int (length (Content result)), PublicLink = publicURL,
                          Tag = Etag result, Timestamp = now, Bucket = []\<rparr>\<rparr>), w))))))"

text \<open>
  The downloads call \<^verbatim>\<open>os.Remove\<close> in their two failure branches after \<^verbatim>\<open>os.Create\<close>
  and drop the error it returns: only the world it leaves is kept.
\<close>

definition AwsDownloadFile ::
  "'s FileStorageManager \<Rightarrow> Sdk \<Rightarrow> World \<Rightarrow> string \<Rightarrow> string \<Rightarrow> string
     \<Rightarrow> (go_error + FileResponse) \<times> World" where
  "AwsDownloadFile f k w awsFileID bucketname saveAsPath =
     (let bucketname = (if bucketname = [] then AWSBucket (config f) else bucketname)
      in
     (case GetAwsClient f k of
        Inl err \<Rightarrow> (Inr (failure (Error err)), w)
      | Inr s3Client \<Rightarrow>
     (case os_Create k w saveAsPath of
        (Some err, w1) \<Rightarrow> (Inr (failure (Error err)), w1)
      | (None, w1) \<Rightarrow>
     (case s3_GetObject k w1 bucketname awsFileID of
        Inl err \<Rightarrow> (Inr (failure (Error err)), snd (os_Remove k w1 saveAsPath))
      | Inr result \<Rightarrow>
     (case io_Copy k w1 saveAsPath (Content result) of
        (Some err, w2) \<Rightarrow> (Inr (failure (Error err)), snd (os_Remove k w2 saveAsPath))
      | (None, w2) \<Rightarrow>
          (Inr (FileResponse_zero
             \<lparr>Status := StatusSuccess, Message := ''File success saved to '' @ saveAsPath\<rparr>),
           w2))))))"

definition Minute :: int64 where
  "Minute = 60 * Second"

definition Time_Add :: "Time \<Rightarrow> int64 \<Rightarrow> Time" where
  "Time_Add t d = t + sint d"

text \<open>\<^verbatim>\<open>Time.Sub\<close> saturates at the least and the greatest duration.\<close>

definition Time_Sub :: "Time \<Rightarrow> Time \<Rightarrow> int64" where
  "Time_Sub t u =
     (if t - u < - (2 ^ 63) then word_of_int (- (2 ^ 63))
      else if 2 ^ 63 - 1 < t - u then word_of_int (2 ^ 63 - 1)
      else word_of_int (t - u))"

text \<open>
  \<^verbatim>\<open>AwsGetTemporaryPublicLink\<close> reads the clock for the default expiry (\<open>now\<close>) and again
  for the duration it signs (\<open>now'\<close>).
\<close>

definition AwsGetTemporaryPublicLink ::
  "'s FileStorageManager \<Rightarrow> Sdk \<Rightarrow> World \<Rightarrow> string \<Rightarrow> Time \<Rightarrow> string \<Rightarrow> Time \<Rightarrow> Time
     \<Rightarrow> (go_error + FileResponse) \<times> World" where
  "AwsGetTemporaryPublicLink f k w awsFileID expiry bucketname now now' =
     (let bucketname = (if bucketname = [] then AWSBucket (config f) else bucketname);
          expiry = (if expiry = 0 then Time_Add now (30 * Minute) else expiry)
      in
     (case GetAwsClient f k of
        Inl err \<Rightarrow> (Inr (failure (Error err)), w)
      | Inr s3Client \<Rightarrow>
     (case Presign k bucketname awsFileID (Time_Sub expiry now') of
        Inl err \<Rightarrow> (Inr (failure (Error err)), w)
      | Inr urlStr \<Rightarrow>
          (Inr (FileResponse_zero\<lparr>Status := StatusSuccess, URL := urlStr, ExpiredAt := expiry\<rparr>),
           w))))"

subsection \<open>Operations on object store B\<close>

definition GetGcsClient :: "'s FileStorageManager \<Rightarrow> Sdk \<Rightarrow> string \<Rightarrow> go_error + unit" where
  "GetGcsClient f k projectID =
     (let projectID = (if projectID = [] then GCSProjectID (config f) else projectID)
      in if GCSKeyPath (config f) = [] \<or> projectID = [] then Inl (Errorf ''credential not found'')
         else (case NewClient_err k of Some err \<Rightarrow> Inl err | None \<Rightarrow> Inr ()))"

definition GcsUpload ::
  "'s FileStorageManager \<Rightarrow> Sdk \<Rightarrow> World \<Rightarrow> FileHeader \<Rightarrow> string \<Rightarrow> string \<Rightarrow> string \<Rightarrow> string
     \<Rightarrow> Time \<Rightarrow> (go_error + FileResponse) go \<times> World" where
  "GcsUpload f k w file subdirectory bucketname projectID uuid now =
     (case Open_err file of
        Some err \<Rightarrow> (Returns (Inl err), w)
      | None \<Rightarrow>
     (case Read file of
        Inl err \<Rightarrow> (Returns (Inl err), w)
      | Inr data \<Rightarrow>
     (let origFilename = filepath_Base (Filename file);
          extension = extension_of origFilename;
          uniqueFilename = uuid @ ''.'' @ extension;
          fileID = (if subdirectory \<noteq> [] then subdirectory @ ''/'' @ uniqueFilename
                    else uniqueFilename);
          bucketname = (if bucketname = [] then GCSBucket (config f) else bucketname)
      in
     (case GetGcsClient f k projectID of
        Inl err \<Rightarrow> (Returns (Inr (failure (Error err))), w)
      | Inr gcsClient \<Rightarrow>
     (case gcs_BucketAttrs k w bucketname of
        Some err \<Rightarrow> (Returns (Inr (failure ''Bucket not found'')), w)
      | None \<Rightarrow>
     (case gcs_Write k data of
        Some err \<Rightarrow> (Returns (Inr (failure (Error err))), w)
      | None \<Rightarrow>
     (case gcs_Close k w bucketname fileID data (ContentTypeHeader file) now of
        (Some err, w') \<Rightarrow> (Returns (Inr (failure (Error err))), w')
      | (None, w') \<Rightarrow>
     (case gcs_ObjectAttrs k w' bucketname fileID of
        Inl err \<Rightarrow> (Returns (Inr (failure (Error err))), w')
      | Inr attrs \<Rightarrow>
     (let publicURL = ''https://storage.googleapis.com/'' @ bucketname @ ''/'' @ fileID
      in
     (case slice_to origFilename (int (length origFilename) - int (length extension) - 1) of
        None \<Rightarrow> (Panics, w')
      | Some name \<Rightarrow>
          (Returns (Inr (FileResponse_zero
             \<lparr>Status := StatusSuccess,
              Message := ''INSERT '' @ fileID,
              FileID := fileID,
              Info := Some \<lparr>FileExt = extension, FileID = fileID,
                            FileMimeType = ContentType attrs, FileName = name,
                            FileSize = int (length (Content attrs)), PublicLink = publicURL,
                            Tag = Etag attrs, Timestamp = Created attrs,
                            Bucket = bucketname\<rparr>\<rparr>)), w')))))))))))"

definition GcsDelete ::
  "'s FileStorageManager \<Rightarrow> Sdk \<Rightarrow> World \<Rightarrow> string \<Rightarrow> string \<Rightarrow> string
     \<Rightarrow> (go_error + FileResponse) \<times> World" where
  "GcsDelete f k w gcsFileID bucketname projectID =
     (let bucketname = (if bucketname = [] then GCSBucket (config f) else bucketname)
      in
     (case GetGcsClient f k projectID of
        Inl err \<Rightarrow> (Inr (failure (Error err)), w)
      | Inr gcsClient \<Rightarrow>
     (case gcs_BucketAttrs k w bucketname of
        Some err \<Rightarrow> (Inr (failure ''Bucket not found''), w)
      | None \<Rightarrow>
     (case gcs_ObjectAttrs k w bucketname gcsFileID of
        Inl err \<Rightarrow> (Inr (failure (''Object '' @ gcsFileID @ '' not found'')), w)
      | Inr attrs \<Rightarrow>
     (case gcs_Delete k w bucketname gcsFileID of
        (Some err, w') \<Rightarrow> (Inr (failure (Error err)), w')
      | (None, w') \<Rightarrow>
          (Inr (FileResponse_zero\<lparr>Status := StatusSuccess, Message := ''DELETE '' @ gcsFileID\<rparr>),
           w'))))))"

definition GcsGetFileById ::
  "'s FileStorageManager \<Rightarrow> Sdk \<Rightarrow> World \<Rightarrow> string \<Rightarrow> string \<Rightarrow> string
     \<Rightarrow> (go_error + FileResponse) \<times> World" where
  "GcsGetFileById f k w gcsFileID bucketname projectID =
     (let bucketname = (if bucketname = [] then GCSBucket (config f) else bucketname)
      in
     (case GetGcsClient f k projectID of
        Inl err \<Rightarrow> (Inr (failure (Error err)), w)
      | Inr gcsClient \<Rightarrow>
     (case gcs_BucketAttrs k w bucketname of
        Some err \<Rightarrow> (Inr (failure ''Bucket not found''), w)
      | None \<Rightarrow>
     (case gcs_ObjectAttrs k w bucketname gcsFileID of
        Inl err \<Rightarrow> (Inr (failure (''Object '' @ gcsFileID @ '' not found'')), w)
      | Inr attrs \<Rightarrow>
     (case gcs_NewReader k w bucketname gcsFileID of
        Inl err \<Rightarrow> (Inr (failure (Error err)), w)
      | Inr reader \<Rightarrow>
     (case io_ReadAll k reader of
        Inl err \<Rightarrow> (Inr (failure (Error err)), w)
      | Inr data \<Rightarrow>
     (let extension = extension_of gcsFileID;
          publicURL = ''https://storage.googleapis.com/'' @ bucketname @ ''/'' @ gcsFileID
      in
        (Inr (FileResponse_zero
           \<lparr>Status := StatusSuccess,
            Data := EncodeToString k data,
            Info := Some \<lparr>FileExt = extension, FileID = gcsFileID,
                          FileMimeType = ContentType attrs, FileName = [],
                          FileSize = int (length (Content attrs)), PublicLink = publicURL,
                          Tag = Etag attrs, Timestamp = Created attrs,
                          Bucket = bucketname\<rparr>\<rparr>), w))))))))"

definition GcsDownloadFile ::
  "'s FileStorageManager \<Rightarrow> Sdk \<Rightarrow> World \<Rightarrow> string \<Rightarrow> string \<Rightarrow> string \<Rightarrow> string
     \<Rightarrow> (go_error + FileResponse) \<times> World" where
  "GcsDownloadFile f k w gcsFileID saveAsPath bucketname projectID =
     (let bucketname = (if bucketname = [] then GCSBucket (config f) else bucketname)
      in
     (case GetGcsClient f k projectID of
        Inl err \<Rightarrow> (Inr (failure (Error err)), w)
      | Inr gcsClient \<Rightarrow>
     (case gcs_BucketAttrs k w bucketname of
        Some err \<Rightarrow> (Inr (failure ''Bucket not found''), w)
      | None \<Rightarrow>
     (case gcs_ObjectAttrs k w bucketname gcsFileID of
        Inl err \<Rightarrow> (Inr (failure (''Object '' @ gcsFileID @ '' not found'')), w)
      | Inr attrs \<Rightarrow>
     (case os_Create k w saveAsPath of
        (Some err, w1) \<Rightarrow> (Inr (failure (Error err)), w1)
      | (None, w1) \<Rightarrow>
     (case gcs_NewReader k w1 bucketname gcsFileID of
        Inl err \<Rightarrow> (Inr (failure (Error err)), snd (os_Remove k w1 saveAsPath))
      | Inr reader \<Rightarrow>
     (case io_Copy k w1 saveAsPath reader of
        (Some err, w2) \<Rightarrow> (Inr (failure (Error err)), snd (os_Remove k w2 saveAsPath))
      | (None, w2) \<Rightarrow>
          (Inr (FileResponse_zero
             \<lparr>Status := StatusSuccess, Message := ''File success saved to '' @ saveAsPath\<rparr>),
           w2))))))))"

definition GcsGetFileByIdAsString ::
  "'s FileStorageManager \<Rightarrow> Sdk \<Rightarrow> World \<Rightarrow> string \<Rightarrow> string \<Rightarrow> string
     \<Rightarrow> (go_error + FileResponse) \<times> World" where
  "GcsGetFileByIdAsString f k w gcsFileID bucketname projectID =
     (let bucketname = (if bucketname = [] then GCSBucket (config f) else bucketname)
      in
     (case GetGcsClient f k projectID of
        Inl err \<Rightarrow> (Inr (failure (Error err)), w)
      | Inr gcsClient \<Rightarrow>
     (case gcs_BucketAttrs k w bucketname of
        Some err \<Rightarrow> (Inr (failure ''Bucket not found''), w)
      | None \<Rightarrow>
     (case gcs_ObjectAttrs k w bucketname gcsFileID of
        Inl err \<Rightarrow> (Inr (failure (''Object '' @ gcsFileID @ '' not found'')), w)
      | Inr attrs \<Rightarrow>
     (case gcs_NewReader k w bucketname gcsFileID of
        Inl err \<Rightarrow> (Inr (failure (Error err)), w)
      | Inr reader \<Rightarrow>
     (case io_ReadAll k reader of
        Inl err \<Rightarrow> (Inr (failure (Error err)), w)
      | Inr data \<Rightarrow>
          (Inr (FileResponse_zero\<lparr>Status := StatusSuccess, StringData := data\<rparr>), w)))))))"

definition GcsGetFileByIdAsStream ::
  "'s FileStorageManager \<Rightarrow> Sdk \<Rightarrow> World \<Rightarrow> string \<Rightarrow> string \<Rightarrow> string
     \<Rightarrow> (go_error + FileResponse) \<times> World" where
  "GcsGetFileByIdAsStream f k w gcsFileID bucketname projectID =
     (let bucketname = (if bucketname = [] then GCSBucket (config f) else bucketname)
      in
     (case GetGcsClient f k projectID of
        Inl err \<Rightarrow> (Inr (failure (Error err)), w)
      | Inr gcsClient \<Rightarrow>
     (case gcs_BucketAttrs k w bucketname of
        Some err \<Rightarrow> (Inr (failure ''Bucket not found''), w)
      | None \<Rightarrow>
     (case gcs_ObjectAttrs k w bucketname gcsFileID of
        Inl err \<Rightarrow> (Inr (failure (''Object '' @ gcsFileID @ '' not found'')), w)
      | Inr attrs \<Rightarrow>
     (case gcs_NewReader k w bucketname gcsFileID of
        Inl err \<Rightarrow> (Inr (failure (Error err)), w)
      | Inr reader \<Rightarrow>
          (Inr (FileResponse_zero\<lparr>Status := StatusSuccess, StreamData := Some reader\<rparr>), w))))))"

definition GcsGetTemporaryPublicLink ::
  "'s FileStorageManager \<Rightarrow> Sdk \<Rightarrow> World \<Rightarrow> string \<Rightarrow> Time \<Rightarrow> string \<Rightarrow> string \<Rightarrow> Time
     \<Rightarrow> (go_error + FileResponse) \<times> World" where
  "GcsGetTemporaryPublicLink f k w gcsFileID expiry bucketname projectID now =
     (let bucketname = (if bucketname = [] then GCSBucket (config f) else bucketname);
          expiry = (if expiry = 0 then Time_Add now (30 * Minute) else expiry)
      in
     (case GetGcsClient f k projectID of
        Inl err \<Rightarrow> (Inr (failure (Error err)), w)
      | Inr gcsClient \<Rightarrow>
     (case gcs_BucketAttrs k w bucketname of
        Some err \<Rightarrow> (Inr (failure ''Bucket not found''), w)
      | None \<Rightarrow>
     (case gcs_ObjectAttrs k w bucketname gcsFileID of
        Inl err \<Rightarrow> (Inr (failure (''Object '' @ gcsFileID @ '' not found'')), w)
      | Inr attrs \<Rightarrow>
     (case os_ReadFile k w (GCSKeyPath (config f)) of
        Inl err \<Rightarrow> (Inr (failure (''Failed to read service account key: '' @ Error err)), w)
      | Inr jsonKey \<Rightarrow>
     (case KeyUnmarshal k jsonKey of
        Inl err \<Rightarrow> (Inr (failure (''Failed to parse service account key: '' @ Error err)), w)
      | Inr (ClientEmail, PrivateKey) \<Rightarrow>
     (case SignedURL k bucketname gcsFileID expiry ClientEmail PrivateKey of
        Inl err \<Rightarrow> (Inr (failure (Error err)), w)
      | Inr url \<Rightarrow>
          (Inr (FileResponse_zero\<lparr>Status := StatusSuccess, URL := url, ExpiredAt := expiry\<rparr>),
           w))))))))"

subsection \<open>Names used to state the properties of the object-store operations\<close>

text \<open>The bucket an operation works on: the argument, or the configured default.\<close>

definition aws_bucket :: "'s FileStorageManager \<Rightarrow> string \<Rightarrow> string" where
  "aws_bucket f bucketname = (if bucketname = [] then AWSBucket (config f) else bucketname)"

definition gcs_bucket :: "'s FileStorageManager \<Rightarrow> string \<Rightarrow> string" where
  "gcs_bucket f bucketname = (if bucketname = [] then GCSBucket (config f) else bucketname)"

text \<open>The storage key an upload generates for a file.\<close>

definition upload_key :: "string \<Rightarrow> string \<Rightarrow> FileHeader \<Rightarrow> string" where
  "upload_key subdirectory uuid file =
     (if subdirectory \<noteq> [] then subdirectory @ ''/'' else [])
       @ uuid @ ''.'' @ extension_of (filepath_Base (Filename file))"

text \<open>The expiry a temporary link is signed for.\<close>

definition link_expiry :: "Time \<Rightarrow> Time \<Rightarrow> Time" where
  "link_expiry expiry now = (if expiry = 0 then Time_Add now (30 * Minute) else expiry)"

text \<open>The \<^verbatim>\<open>FileInfo\<close> of what an upload returned, if it returned one.\<close>

definition info_of :: "(go_error + FileResponse) go \<Rightarrow> FileInfo option" where
  "info_of out = (case out of Returns (Inr r) \<Rightarrow> Info r | _ \<Rightarrow> None)"

definition id_of :: "(go_error + FileResponse) go \<Rightarrow> string option" where
  "id_of out = (case out of Returns (Inr r) \<Rightarrow> Some (FileResponse.FileID r) | _ \<Rightarrow> None)"

subsection \<open>A concrete object store\<close>

text \<open>
  Libraries without faults; and a world whose two stores hold one bucket with the object
  \<^verbatim>\<open>a.txt\<close>, and whose disk is empty.
\<close>

definition example_sdk :: Sdk where
  "example_sdk =
     \<lparr>NewSession_err = None, PutObject_err = None, DeleteObject_err = None,
      GetObject_err = None, ReadAll_err = None, Create_err = None, Copy_err = None,
      Remove_err = None,
      Presign = (\<lambda>bucket key d. Inr (''https://signed/'' @ bucket @ ''/'' @ key)),
      NewClient_err = None, BucketAttrs_err = None, Write_err = None, Close_err = None,
      ObjectAttrs_err = None, ObjectDelete_err = None, NewReader_err = None,
      ReadFile_err = None,
      KeyUnmarshal = (\<lambda>body. Inr (''robot@project'', ''private'')),
      SignedURL = (\<lambda>bucket key expiry email pk. Inr (''https://signed/'' @ bucket @ ''/'' @ key)),
      EncodeToString = (\<lambda>bytes. bytes),
      etag_of = (\<lambda>bytes. ''tag'')\<rparr>"

definition example_object :: Object where
  "example_object = \<lparr>Content = ''hello'', ContentType = ''text/plain'', Etag = ''tag'', Created = 7\<rparr>"

definition example_world :: World where
  "example_world =
     \<lparr>s3 = [''bucket'' \<mapsto> [''a.txt'' \<mapsto> example_object]],
      gcs = [''bucket'' \<mapsto> [''a.txt'' \<mapsto> example_object]],
      disk = Map.empty\<rparr>"

definition example_file :: "string \<Rightarrow> FileHeader" where
  "example_file name =
     \<lparr>Filename = name, ContentTypeHeader = ''text/plain'', Open_err = None, Read = Inr ''hello''\<rparr>"

text \<open>
  Libraries that cannot build a client; libraries whose \<^verbatim>\<open>io.Copy\<close> fails after two
  bytes; libraries that cannot open a reader; libraries whose \<^verbatim>\<open>io.Copy\<close> fails after
  two bytes and whose \<^verbatim>\<open>os.Remove\<close> is refused; and a world with an older file at the
  download path.
\<close>

definition example_sdk_no_client :: Sdk where
  "example_sdk_no_client =
     example_sdk\<lparr>NewSession_err := Some (Errorf ''no credentials''),
                 NewClient_err := Some (Errorf ''no credentials'')\<rparr>"

definition example_sdk_copy_fails :: Sdk where
  "example_sdk_copy_fails = example_sdk\<lparr>Copy_err := Some (2, Errorf ''disk full'')\<rparr>"

definition example_sdk_no_reader :: Sdk where
  "example_sdk_no_reader = example_sdk\<lparr>NewReader_err := Some (Errorf ''connection reset'')\<rparr>"

definition example_sdk_remove_refused :: Sdk where
  "example_sdk_remove_refused =
     example_sdk\<lparr>Copy_err := Some (2, Errorf ''disk full''),
                 Remove_err := Some (Errorf ''permission denied'')\<rparr>"

definition example_sdk_no_reader_remove_refused :: Sdk where
  "example_sdk_no_reader_remove_refused =
     example_sdk\<lparr>NewReader_err := Some (Errorf ''connection reset''),
                 Remove_err := Some (Errorf ''permission denied'')\<rparr>"

definition example_world_old_file :: World where
  "example_world_old_file = example_world\<lparr>disk := [''/tmp/a'' \<mapsto> ''old'']\<rparr>"

section \<open>Properties of the cache\<close>

text \<open>
  Adding a positive duration to a clock reading either gives the exact sum or wraps
  around to a negative number.
\<close>

lemma sint_add_cases:
  fixes a b :: int64
  assumes "0 <s b"
  shows "sint (a + b) = sint a + sint b \<or> (sint (a + b) < 0 \<and> 2 ^ 63 \<le> sint a + sint b)"
proof -
  have a: "- (2 ^ 63) \<le> sint a" "sint a < 2 ^ 63"
    using sint_ge [of a] sint_lt [of a] by simp_all
  have b: "0 < sint b" "sint b < 2 ^ 63"
    using assms sint_lt [of b] by (simp_all add: word_sless_alt)
  have s: "sint (a + b) = signed_take_bit 63 (sint a + sint b)"
    by (simp add: sint_word_ariths)
  show ?thesis
  proof (cases "sint a + sint b < 2 ^ 63")
    case True
    then have "sint (a + b) = sint a + sint b"
      using a b s by (simp add: signed_take_bit_int_eq_self)
    then show ?thesis by simp
  next
    case False
    then have "signed_take_bit 63 (sint a + sint b) \<le> sint a + sint b - 2 ^ Suc 63"
      by (intro signed_take_bit_int_less_eq) simp
    then have "sint (a + b) \<le> sint a + sint b - 2 ^ 64"
      using s by simp
    moreover have "sint a + sint b < 2 ^ 64"
      using a b by simp
    ultimately have "sint (a + b) < 0"
      by linarith
    then show ?thesis using False by linarith
  qed
qed

lemma Get_after_Set:
  "MemoryCache_Get (MemoryCache_Set c now key val ttl) t key =
     (if 0 <s ttl \<and> 0 <s now + ttl \<and> now + ttl <s t then ([], False) else (val, True),
      MemoryCache_Set c now key val ttl)"
  by (simp add: MemoryCache_Get_def MemoryCache_Set_def Let_def)

lemma Has_after_Set:
  "MemoryCache_Has (MemoryCache_Set c now key val ttl) t key =
     (\<not> (0 <s ttl \<and> 0 <s now + ttl \<and> now + ttl <s t), MemoryCache_Set c now key val ttl)"
  by (simp add: MemoryCache_Has_def MemoryCache_Set_def Let_def)

lemma Get_keeps_cache: "snd (MemoryCache_Get c t key) = c"
  by (simp add: MemoryCache_Get_def split: option.splits)

lemma Has_keeps_cache: "snd (MemoryCache_Has c t key) = c"
  by (simp add: MemoryCache_Has_def split: option.splits)

text \<open>An entry is live up to and including its expiration, whatever the clock at \<^verbatim>\<open>Set\<close>.\<close>

lemma live_until:
  fixes now ttl t :: int64
  assumes "0 <s ttl" "sint t \<le> sint now + sint ttl"
  shows "\<not> (0 <s now + ttl \<and> now + ttl <s t)"
  using sint_add_cases [OF assms(1), of now] assms(2) by (auto simp: word_sless_alt)

lemma dead_after:
  fixes now ttl t :: int64
  assumes "0 <s ttl" "0 \<le>s now" "sint now + sint ttl < sint t"
  shows "0 <s now + ttl \<and> now + ttl <s t"
proof -
  have "sint t < 2 ^ 63"
    using sint_lt [of t] by simp
  then have "sint (now + ttl) = sint now + sint ttl"
    using sint_add_cases [OF assms(1), of now] assms(3) by linarith
  moreover have "0 \<le> sint now" "0 < sint ttl"
    using assms by (simp_all add: word_sle_eq word_sless_alt)
  ultimately show ?thesis
    using assms(3) by (simp add: word_sless_alt)
qed

text \<open>
  C6. An entry stored by \<^verbatim>\<open>Set\<close> with a positive \<open>ttl\<close>, by a clock that does not read
  before the Unix epoch, is found by \<^verbatim>\<open>Get\<close> and \<^verbatim>\<open>Has\<close> at every instant before its
  expiration \<open>now + ttl\<close> and is not found at any instant after it; and neither \<^verbatim>\<open>Get\<close>
  nor \<^verbatim>\<open>Has\<close> changes the cache, whatever the cache, the instant and the key.
\<close>

theorem cache_expiry:
  assumes "0 <s ttl" and "0 \<le>s now"
  shows "(sint t < sint now + sint ttl \<longrightarrow>
            fst (MemoryCache_Get (MemoryCache_Set c now key val ttl) t key) = (val, True) \<and>
            fst (MemoryCache_Has (MemoryCache_Set c now key val ttl) t key) = True)
       \<and> (sint now + sint ttl < sint t \<longrightarrow>
            fst (MemoryCache_Get (MemoryCache_Set c now key val ttl) t key) = ([], False) \<and>
            fst (MemoryCache_Has (MemoryCache_Set c now key val ttl) t key) = False)
       \<and> snd (MemoryCache_Get c' t' key') = c'
       \<and> snd (MemoryCache_Has c' t' key') = c'"
  using live_until [OF assms(1), of t now] dead_after [OF assms, of t] assms(1)
  by (auto simp add: Get_after_Set Has_after_Set Get_keeps_cache Has_keeps_cache)

theorem cache_expiry_witness:
  "fst (MemoryCache_Get (MemoryCache_Set NewMemoryCache 1000 ''k'' ''v'' 50) 1049 ''k'') = (''v'', True)
   \<and> fst (MemoryCache_Has (MemoryCache_Set NewMemoryCache 1000 ''k'' ''v'' 50) 1049 ''k'') = True
   \<and> fst (MemoryCache_Get (MemoryCache_Set NewMemoryCache 1000 ''k'' ''v'' 50) 1051 ''k'') = ([], False)
   \<and> fst (MemoryCache_Has (MemoryCache_Set NewMemoryCache 1000 ''k'' ''v'' 50) 1051 ''k'') = False
   \<and> snd (MemoryCache_Get (MemoryCache_Set NewMemoryCache 1000 ''k'' ''v'' 50) 1051 ''k'')
       = MemoryCache_Set NewMemoryCache 1000 ''k'' ''v'' 50"
proof -
  have ttl: "(0::int64) <s 50"
    by (simp add: word_sless_alt)
  have now: "(0::int64) \<le>s 1000"
    by (simp add: word_sle_eq)
  show ?thesis
    using cache_expiry [OF ttl now, of 1049 NewMemoryCache "''k''" "''v''"
            "MemoryCache_Set NewMemoryCache 1000 ''k'' ''v'' 50" 1051 "''k''"]
          cache_expiry [OF ttl now, of 1051 NewMemoryCache "''k''" "''v''"
            "MemoryCache_Set NewMemoryCache 1000 ''k'' ''v'' 50" 1051 "''k''"]
    by simp
qed

text \<open>A sweep keeps every entry whose expiration is 0.\<close>

lemma deleteExpired_keeps:
  "items c key = Some item \<Longrightarrow> Expiration item = 0 \<Longrightarrow>
   items (MemoryCache_deleteExpired c now) key = Some item"
  by (simp add: MemoryCache_deleteExpired_def)

lemma janitor_keeps:
  "items c key = Some item \<Longrightarrow> Expiration item = 0 \<Longrightarrow> items (janitor c ticks) key = Some item"
  by (induction ticks arbitrary: c) (simp_all add: deleteExpired_keeps)

text \<open>
  C7. An entry stored by \<^verbatim>\<open>Set\<close> with a \<open>ttl\<close> that is zero or negative never expires:
  after any number of sweeps of the janitor, at any clock readings, the entry is still in
  the map, and \<^verbatim>\<open>Get\<close> returns its value and \<^verbatim>\<open>Has\<close> returns true at every instant.
\<close>

theorem non_expiring_entry:
  assumes "ttl \<le>s 0"
  shows "items (janitor (MemoryCache_Set c now key val ttl) ticks) key
           = Some \<lparr>Value = val, Expiration = 0\<rparr>
       \<and> fst (MemoryCache_Get (janitor (MemoryCache_Set c now key val ttl) ticks) t key) = (val, True)
       \<and> fst (MemoryCache_Has (janitor (MemoryCache_Set c now key val ttl) ticks) t key) = True"
proof -
  have "\<not> 0 <s ttl"
    using assms by (simp add: word_sless_alt word_sle_eq)
  then have "items (MemoryCache_Set c now key val ttl) key = Some \<lparr>Value = val, Expiration = 0\<rparr>"
    by (simp add: MemoryCache_Set_def)
  then have "items (janitor (MemoryCache_Set c now key val ttl) ticks) key
               = Some \<lparr>Value = val, Expiration = 0\<rparr>"
    by (rule janitor_keeps) simp
  then show ?thesis
    by (simp add: MemoryCache_Get_def MemoryCache_Has_def)
qed

theorem non_expiring_entry_witness:
  "items (janitor (MemoryCache_Set NewMemoryCache 1000 ''k'' ''v'' 0) [2000, 9000]) ''k''
     = Some \<lparr>Value = ''v'', Expiration = 0\<rparr>
   \<and> fst (MemoryCache_Get (janitor (MemoryCache_Set NewMemoryCache 1000 ''k'' ''v'' 0) [2000, 9000])
            9999 ''k'') = (''v'', True)
   \<and> fst (MemoryCache_Has (janitor (MemoryCache_Set NewMemoryCache 1000 ''k'' ''v'' 0) [2000, 9000])
            9999 ''k'') = True"
proof -
  have ttl: "(0::int64) \<le>s 0"
    by simp
  show ?thesis
    using non_expiring_entry [OF ttl, of NewMemoryCache 1000 "''k''" "''v''" "[2000, 9000]" 9999]
    by simp
qed

section \<open>Properties of the token manager\<close>

text \<open>A duration of \<open>n\<close> seconds, where it does not overflow.\<close>

lemma sint_seconds:
  fixes n :: int64
  assumes "0 < sint n" "sint n * 1000000000 < 2 ^ 63"
  shows "sint (n * Second) = sint n * 1000000000" "0 <s n * Second"
proof -
  have "sint (n * Second) = signed_take_bit 63 (sint n * sint Second)"
    by (simp add: sint_word_ariths)
  also have "sint Second = 1000000000"
    by (simp add: Second_def)
  also have "signed_take_bit 63 (sint n * 1000000000) = sint n * 1000000000"
    using assms by (intro signed_take_bit_int_eq_self) simp_all
  finally show s: "sint (n * Second) = sint n * 1000000000" .
  show "0 <s n * Second"
    using assms(1) by (simp add: word_sless_alt s)
qed

text \<open>
  C3. \<^verbatim>\<open>GenerateToken\<close> returns an error exactly when the exchange with the authorization
  server fails (the request cannot be built or sent, or the body cannot be read) or the
  response is malformed (\<^verbatim>\<open>json.Unmarshal\<close> rejects it). On every response that
  unmarshals it returns the \<^verbatim>\<open>access_token\<close> of the response and stores it by
  \<^verbatim>\<open>cache.Set\<close> under the token key, which is the fixed \<^verbatim>\<open>"access_token"\<close>, with the
  duration \<^verbatim>\<open>expires_in\<close> seconds: for a positive \<^verbatim>\<open>expires_in\<close> whose nanoseconds fit
  an \<^verbatim>\<open>int64\<close>, and a clock that does not read before the Unix epoch, the cache holds the
  token up to \<^verbatim>\<open>expires_in\<close> seconds after the call and no longer.
\<close>

theorem generate_token_outcome:
  "isl (fst (CacheTokenManager_GenerateToken t n now x)) = (transport_failed x \<or> response_malformed x)
   \<and> CacheTokenManager_GenerateToken t n now (Unmarshalled resp)
       = (Inr (AccessToken resp),
          t\<lparr>cache := MemoryCache_Set (cache t) now (tokenKey t) (AccessToken resp)
                        (ExpiresIn resp * Second)\<rparr>,
          Suc n)
   \<and> tokenKey (NewCacheTokenManager cfg c) = ''access_token''
   \<and> (0 < sint (ExpiresIn resp) \<and> sint (ExpiresIn resp) * 1000000000 < 2 ^ 63 \<and> 0 \<le>s now \<longrightarrow>
        (sint at \<le> sint now + sint (ExpiresIn resp) * 1000000000 \<longrightarrow>
           fst (MemoryCache_Get
                  (cache (fst (snd (CacheTokenManager_GenerateToken t n now (Unmarshalled resp)))))
                  at (tokenKey t)) = (AccessToken resp, True))
      \<and> (sint now + sint (ExpiresIn resp) * 1000000000 < sint at \<longrightarrow>
           fst (MemoryCache_Get
                  (cache (fst (snd (CacheTokenManager_GenerateToken t n now (Unmarshalled resp)))))
                  at (tokenKey t)) = ([], False)))"
proof -
  let ?ttl = "ExpiresIn resp * Second"
  have gen: "CacheTokenManager_GenerateToken t n now (Unmarshalled resp)
       = (Inr (AccessToken resp),
          t\<lparr>cache := MemoryCache_Set (cache t) now (tokenKey t) (AccessToken resp) ?ttl\<rparr>,
          Suc n)"
    by (simp add: CacheTokenManager_GenerateToken_def)
  have err: "isl (fst (CacheTokenManager_GenerateToken t n now x))
               = (transport_failed x \<or> response_malformed x)"
    by (cases x) (simp_all add: CacheTokenManager_GenerateToken_def)
  have key: "tokenKey (NewCacheTokenManager cfg c) = ''access_token''"
    by (simp add: NewCacheTokenManager_def)
  have ttl: "(sint at \<le> sint now + sint (ExpiresIn resp) * 1000000000 \<longrightarrow>
           fst (MemoryCache_Get
                  (cache (fst (snd (CacheTokenManager_GenerateToken t n now (Unmarshalled resp)))))
                  at (tokenKey t)) = (AccessToken resp, True))
      \<and> (sint now + sint (ExpiresIn resp) * 1000000000 < sint at \<longrightarrow>
           fst (MemoryCache_Get
                  (cache (fst (snd (CacheTokenManager_GenerateToken t n now (Unmarshalled resp)))))
                  at (tokenKey t)) = ([], False))"
    if h: "0 < sint (ExpiresIn resp)" "sint (ExpiresIn resp) * 1000000000 < 2 ^ 63" "0 \<le>s now"
  proof -
    have s: "sint ?ttl = sint (ExpiresIn resp) * 1000000000" and pos: "0 <s ?ttl"
      using sint_seconds [OF h(1,2)] by simp_all
    show ?thesis
      using live_until [OF pos, of at now] dead_after [OF pos h(3), of at] pos
      by (auto simp add: gen Get_after_Set s)
  qed
  from gen err key ttl show ?thesis
    by blast
qed

theorem generate_token_outcome_witness:
  "CacheTokenManager_GenerateToken example_token_manager 0 1000 (Unmarshalled example_token)
     = (Inr ''abc'',
        example_token_manager\<lparr>cache := MemoryCache_Set NewMemoryCache 1000 ''access_token'' ''abc''
                                          3600000000000\<rparr>,
        1)
   \<and> fst (MemoryCache_Get
            (cache (fst (snd (CacheTokenManager_GenerateToken example_token_manager 0 1000
                                (Unmarshalled example_token)))))
            3600000001000 ''access_token'') = (''abc'', True)
   \<and> fst (MemoryCache_Get
            (cache (fst (snd (CacheTokenManager_GenerateToken example_token_manager 0 1000
                                (Unmarshalled example_token)))))
            3600000001001 ''access_token'') = ([], False)
   \<and> isl (fst (CacheTokenManager_GenerateToken example_token_manager 0 1000
                  (UnmarshalFails (Errorf ''unexpected end of JSON input''))))"
proof -
  let ?after = "cache (fst (snd (CacheTokenManager_GenerateToken example_token_manager 0 1000
                                   (Unmarshalled example_token))))"
  have h: "0 < sint (ExpiresIn example_token) \<and> sint (ExpiresIn example_token) * 1000000000 < 2 ^ 63
             \<and> (0::int64) \<le>s 1000"
    by (simp add: example_token_def word_sle_eq)
  have before: "sint (3600000001000::int64) \<le> sint (1000::int64) + sint (ExpiresIn example_token) * 1000000000"
    and after: "sint (1000::int64) + sint (ExpiresIn example_token) * 1000000000 < sint (3600000001001::int64)"
    by (simp_all add: example_token_def)
  note T = generate_token_outcome [where t = example_token_manager and n = 0 and now = 1000
            and resp = example_token
            and x = "UnmarshalFails (Errorf ''unexpected end of JSON input'')"]
  have names: "AccessToken example_token = ''abc''" "tokenKey example_token_manager = ''access_token''"
    "cache example_token_manager = NewMemoryCache" "ExpiresIn example_token * Second = 3600000000000"
    by (simp_all add: example_token_def example_token_manager_def NewCacheTokenManager_def Second_def)
  from T [where at = 3600000001000] h before
  have live: "fst (MemoryCache_Get ?after 3600000001000 (tokenKey example_token_manager))
                = (AccessToken example_token, True)"
    by blast
  from T [where at = 3600000001001] h after
  have dead: "fst (MemoryCache_Get ?after 3600000001001 (tokenKey example_token_manager)) = ([], False)"
    by blast
  from T [where at = 0]
  have gen: "CacheTokenManager_GenerateToken example_token_manager 0 1000 (Unmarshalled example_token)
       = (Inr (AccessToken example_token),
          example_token_manager\<lparr>cache := MemoryCache_Set (cache example_token_manager) 1000
             (tokenKey example_token_manager) (AccessToken example_token)
             (ExpiresIn example_token * Second)\<rparr>,
          Suc 0)"
    and err: "isl (fst (CacheTokenManager_GenerateToken example_token_manager 0 1000
                  (UnmarshalFails (Errorf ''unexpected end of JSON input''))))"
    by simp_all
  show ?thesis
    using live dead gen err unfolding names by simp
qed

lemma GetToken_miss:
  assumes "\<not> snd (fst (MemoryCache_Get (cache t) now_get (tokenKey t)))"
  shows "CacheTokenManager_GetToken t n now_get now_set x
           = CacheTokenManager_GenerateToken t n now_set x"
proof -
  obtain token ex c where g: "MemoryCache_Get (cache t) now_get (tokenKey t) = ((token, ex), c)"
    by (metis prod.exhaust)
  then have "c = cache t"
    using Get_keeps_cache [of "cache t" now_get "tokenKey t"] by simp
  then show ?thesis
    using assms g by (simp add: CacheTokenManager_GetToken_def)
qed

lemma GetToken_hit:
  assumes "MemoryCache_Get (cache t) now_get (tokenKey t) = ((token, True), cache t)"
  shows "CacheTokenManager_GetToken t n now_get now_set x = (Inr token, t, n)"
  using assms by (simp add: CacheTokenManager_GetToken_def)

text \<open>
  C9. Two calls of \<^verbatim>\<open>GetToken\<close> on one token manager: the first misses the cache and its
  token request is answered; the second is made while the token the first one cached is
  live, that is no later than \<^verbatim>\<open>expires_in\<close> seconds after it was stored (or at any time,
  when the stored duration is not positive and the entry has no expiration). Then both
  return the \<^verbatim>\<open>access_token\<close> of that response and exactly one token request has been
  issued in total: the second call issues none, whatever the server would do with it.
\<close>

theorem token_reuse:
  assumes miss: "\<not> snd (fst (MemoryCache_Get (cache t) t1 (tokenKey t)))"
    and first: "CacheTokenManager_GetToken t n t1 t1' (Unmarshalled resp) = (r1, t', n')"
    and live: "ExpiresIn resp * Second \<le>s 0 \<or> sint t2 \<le> sint t1' + sint (ExpiresIn resp * Second)"
    and second: "CacheTokenManager_GetToken t' n' t2 t2' x = (r2, t'', n'')"
  shows "r1 = Inr (AccessToken resp) \<and> r2 = Inr (AccessToken resp) \<and> n' = Suc n \<and> n'' = Suc n"
proof -
  let ?ttl = "ExpiresIn resp * Second"
  let ?c = "MemoryCache_Set (cache t) t1' (tokenKey t) (AccessToken resp) ?ttl"
  have gen: "(r1, t', n') = (Inr (AccessToken resp), t\<lparr>cache := ?c\<rparr>, Suc n)"
    using first GetToken_miss [OF miss]
    by (simp add: CacheTokenManager_GenerateToken_def)
  have found: "\<not> (0 <s ?ttl \<and> 0 <s t1' + ?ttl \<and> t1' + ?ttl <s t2)"
  proof (cases "0 <s ?ttl")
    case True
    then have "sint t2 \<le> sint t1' + sint ?ttl"
      using live by (auto simp: word_sless_alt word_sle_eq)
    then show ?thesis
      using live_until [OF True] by blast
  next
    case False
    then show ?thesis by simp
  qed
  have "MemoryCache_Get (cache t') t2 (tokenKey t') = ((AccessToken resp, True), cache t')"
    using gen found by (simp add: Get_after_Set)
  then have "(r2, t'', n'') = (Inr (AccessToken resp), t', n')"
    using second GetToken_hit by metis
  then show ?thesis
    using gen by simp
qed

theorem token_reuse_witness:
  "(case CacheTokenManager_GetToken example_token_manager 0 1000 1005 (Unmarshalled example_token) of
      (r1, t', n') \<Rightarrow>
        (case CacheTokenManager_GetToken t' n' 2000 2001 (DoFails (Errorf ''down'')) of
           (r2, t'', n'') \<Rightarrow> r1 = Inr ''abc'' \<and> r2 = Inr ''abc'' \<and> n' = 1 \<and> n'' = 1))"
proof -
  obtain r1 t' n' where first:
    "CacheTokenManager_GetToken example_token_manager 0 1000 1005 (Unmarshalled example_token)
       = (r1, t', n')"
    by (rule prod_cases3)
  obtain r2 t'' n'' where second:
    "CacheTokenManager_GetToken t' n' 2000 2001 (DoFails (Errorf ''down'')) = (r2, t'', n'')"
    by (rule prod_cases3)
  have miss: "\<not> snd (fst (MemoryCache_Get (cache example_token_manager) 1000
                            (tokenKey example_token_manager)))"
    by (simp add: example_token_manager_def NewCacheTokenManager_def NewMemoryCache_def
          MemoryCache_Get_def)
  have live: "ExpiresIn example_token * Second \<le>s 0
                \<or> sint (2000 :: int64) \<le> sint (1005 :: int64) + sint (ExpiresIn example_token * Second)"
    by (simp add: example_token_def Second_def)
  show ?thesis
    using token_reuse [OF miss first live second] first second
    by (simp add: example_token_def)
qed

section \<open>Properties of the REST retry loop\<close>

lemma loop_exhausted:
  "maxRetry f \<le> attempts r \<Longrightarrow>
   retry_loop f h method url body r = (Inl (Errorf ''exceeded maximum retry attempts''), r)"
  by (subst retry_loop.simps) simp

lemma loop_transient:
  assumes "int n < maxRetry f" "transient (attempt_at f h method url body s n)"
  shows "retry_loop f h method url body (run_at f s n) = retry_loop f h method url body (run_at f s (Suc n))"
proof -
  have eq: "again f (run_at f s n) (snd (GetToken (tokenManager f) (tm_at f s n))) = run_at f s (Suc n)"
    by (simp add: again_def run_at_def)
  show ?thesis
    using assms eq
    by (subst retry_loop.simps)
       (auto simp: attempt_at_def run_at_def split: prod.splits sum.splits)
qed

lemma loop_prefix:
  assumes "\<forall>i<n. transient (attempt_at f h method url body s i)" "int n \<le> maxRetry f"
  shows "retry_loop f h method url body (start s) = retry_loop f h method url body (run_at f s n)"
  using assms
proof (induction n)
  case 0
  show ?case by (simp add: start_def run_at_def)
next
  case (Suc n)
  then have "retry_loop f h method url body (start s) = retry_loop f h method url body (run_at f s n)"
    by simp
  also have "\<dots> = retry_loop f h method url body (run_at f s (Suc n))"
    using Suc.prems by (intro loop_transient) simp_all
  finally show ?case .
qed

lemma loop_no_token:
  assumes "int n < maxRetry f" "attempt_at f h method url body s n = NoToken err"
  shows "retry_loop f h method url body (run_at f s n)
           = (Inl err, (run_at f s n)\<lparr>tm := snd (GetToken (tokenManager f) (tm_at f s n))\<rparr>)"
  using assms
  by (subst retry_loop.simps)
     (auto simp: attempt_at_def run_at_def split: prod.splits sum.splits)

lemma loop_response:
  assumes "int n < maxRetry f" "attempt_at f h method url body s n = Sent (Inr resp)" "StatusCode resp < 500"
  shows "retry_loop f h method url body (run_at f s n)
           = (Inr resp, (run_at f s n)\<lparr>tm := snd (GetToken (tokenManager f) (tm_at f s n)), sent := Suc n\<rparr>)"
  using assms
  by (subst retry_loop.simps)
     (auto simp: attempt_at_def run_at_def split: prod.splits sum.splits)

lemma run_exhausted:
  assumes "0 \<le> maxRetry f" "\<forall>i<nat (maxRetry f). transient (attempt_at f h method url body s i)"
  shows "retry_loop f h method url body (start s)
           = (Inl (Errorf ''exceeded maximum retry attempts''), run_at f s (nat (maxRetry f)))"
proof -
  have "retry_loop f h method url body (start s)
          = retry_loop f h method url body (run_at f s (nat (maxRetry f)))"
    using assms by (intro loop_prefix) simp_all
  also have "\<dots> = (Inl (Errorf ''exceeded maximum retry attempts''), run_at f s (nat (maxRetry f)))"
    using assms(1) by (intro loop_exhausted) (simp add: run_at_def)
  finally show ?thesis .
qed

lemma run_answered:
  assumes "1 \<le> k" "int k \<le> maxRetry f"
    and "\<forall>i<k - 1. transient (attempt_at f h method url body s i)"
    and "attempt_at f h method url body s (k - 1) = Sent (Inr resp)" "StatusCode resp < 500"
  shows "retry_loop f h method url body (start s)
           = (Inr resp, (run_at f s (k - 1))
                \<lparr>tm := snd (GetToken (tokenManager f) (tm_at f s (k - 1))), sent := k\<rparr>)"
proof -
  have "retry_loop f h method url body (start s)
          = retry_loop f h method url body (run_at f s (k - 1))"
    using assms by (intro loop_prefix) simp_all
  also have "\<dots> = (Inr resp, (run_at f s (k - 1))
                \<lparr>tm := snd (GetToken (tokenManager f) (tm_at f s (k - 1))), sent := Suc (k - 1)\<rparr>)"
    using assms by (intro loop_response) simp_all
  finally show ?thesis using assms(1) by simp
qed

lemma run_no_token:
  assumes "\<forall>i<n. transient (attempt_at f h method url body s i)" "int n < maxRetry f"
    and "attempt_at f h method url body s n = NoToken err"
  shows "retry_loop f h method url body (start s)
           = (Inl err, (run_at f s n)\<lparr>tm := snd (GetToken (tokenManager f) (tm_at f s n))\<rparr>)"
proof -
  have "retry_loop f h method url body (start s)
          = retry_loop f h method url body (run_at f s n)"
    using assms by (intro loop_prefix) simp_all
  also have "\<dots> = (Inl err, (run_at f s n)\<lparr>tm := snd (GetToken (tokenManager f) (tm_at f s n))\<rparr>)"
    using assms by (intro loop_no_token) simp_all
  finally show ?thesis .
qed


lemma after_exhausted:
  assumes "0 \<le> maxRetry f" "\<forall>i<nat (maxRetry f). transient (attempt_at f h method url body s i)"
  shows "after_loop h (retry_loop f h method url body (start s))
           = (Inl (Errorf ''exceeded maximum retry attempts''), run_at f s (nat (maxRetry f)))"
  by (simp add: run_exhausted [OF assms] after_loop_def)

lemma after_answered:
  assumes "1 \<le> k" "int k \<le> maxRetry f"
    and "\<forall>i<k - 1. transient (attempt_at f h method url body s i)"
    and "attempt_at f h method url body s (k - 1) = Sent (Inr resp)" "StatusCode resp < 500"
  shows "after_loop h (retry_loop f h method url body (start s))
           = (parse_response h resp, (run_at f s (k - 1))
                \<lparr>tm := snd (GetToken (tokenManager f) (tm_at f s (k - 1))), sent := k\<rparr>)"
  by (simp add: run_answered [OF assms] after_loop_def)

lemma after_no_token:
  assumes "\<forall>i<n. transient (attempt_at f h method url body s i)" "int n < maxRetry f"
    and "attempt_at f h method url body s n = NoToken err"
  shows "after_loop h (retry_loop f h method url body (start s))
           = (Inl err, (run_at f s n)\<lparr>tm := snd (GetToken (tokenManager f) (tm_at f s n))\<rparr>)"
  by (simp add: run_no_token [OF assms] after_loop_def)

lemma Delete_exhausted:
  assumes "0 \<le> maxRetry f" "\<forall>i<nat (maxRetry f). transient (Delete_attempt f h fileID s i)"
  shows "Delete f h fileID s
           = (Inl (Errorf ''exceeded maximum retry attempts''), run_at f s (nat (maxRetry f)))"
  unfolding Delete_def
  by (rule after_exhausted [OF assms(1)]) (use assms(2) in \<open>simp add: Delete_attempt_def\<close>)

lemma GetFileById_exhausted:
  assumes "0 \<le> maxRetry f" "\<forall>i<nat (maxRetry f). transient (GetFileById_attempt f h fileID s i)"
  shows "GetFileById f h fileID s
           = (Inl (Errorf ''exceeded maximum retry attempts''), run_at f s (nat (maxRetry f)))"
  unfolding GetFileById_def
  by (rule after_exhausted [OF assms(1)]) (use assms(2) in \<open>simp add: GetFileById_attempt_def\<close>)

lemma Upload_enters_loop:
  assumes "filename \<noteq> []" "extension \<noteq> []" "mimetype \<noteq> []" "base64file \<noteq> []"
    and "Marshal h (upload_fields filename extension mimetype base64file) = Inr jsonData"
  shows "UploadBase64File f h filename extension mimetype base64file s
           = after_loop h (retry_loop f h ''POST'' (HostURI (config f) @ ''/d/files'')
                             (Some jsonData) (start s))"
  using assms by (simp add: UploadBase64File_def upload_fields_def)

lemma Upload_exhausted:
  assumes "filename \<noteq> []" "extension \<noteq> []" "mimetype \<noteq> []" "base64file \<noteq> []"
    and "Marshal h (upload_fields filename extension mimetype base64file) = Inr jsonData"
    and "0 \<le> maxRetry f" "\<forall>i<nat (maxRetry f). transient (Upload_attempt f h jsonData s i)"
  shows "UploadBase64File f h filename extension mimetype base64file s
           = (Inl (Errorf ''exceeded maximum retry attempts''), run_at f s (nat (maxRetry f)))"
  unfolding Upload_enters_loop [OF assms(1-5)]
  by (rule after_exhausted [OF assms(6)]) (use assms(7) in \<open>simp add: Upload_attempt_def\<close>)

lemma Delete_answered:
  assumes "1 \<le> k" "int k \<le> maxRetry f"
    and "\<forall>i<k - 1. transient (Delete_attempt f h fileID s i)"
    and "Delete_attempt f h fileID s (k - 1) = Sent (Inr resp)" "StatusCode resp < 500"
  shows "Delete f h fileID s
           = (parse_response h resp, (run_at f s (k - 1))
                \<lparr>tm := snd (GetToken (tokenManager f) (tm_at f s (k - 1))), sent := k\<rparr>)"
  unfolding Delete_def
  by (rule after_answered [OF assms(1,2) _ _ assms(5)])
     (use assms(3,4) in \<open>simp_all add: Delete_attempt_def\<close>)

lemma GetFileById_answered:
  assumes "1 \<le> k" "int k \<le> maxRetry f"
    and "\<forall>i<k - 1. transient (GetFileById_attempt f h fileID s i)"
    and "GetFileById_attempt f h fileID s (k - 1) = Sent (Inr resp)" "StatusCode resp < 500"
  shows "GetFileById f h fileID s
           = (parse_response h resp, (run_at f s (k - 1))
                \<lparr>tm := snd (GetToken (tokenManager f) (tm_at f s (k - 1))), sent := k\<rparr>)"
  unfolding GetFileById_def
  by (rule after_answered [OF assms(1,2) _ _ assms(5)])
     (use assms(3,4) in \<open>simp_all add: GetFileById_attempt_def\<close>)

lemma Upload_answered:
  assumes "filename \<noteq> []" "extension \<noteq> []" "mimetype \<noteq> []" "base64file \<noteq> []"
    and "Marshal h (upload_fields filename extension mimetype base64file) = Inr jsonData"
    and "1 \<le> k" "int k \<le> maxRetry f"
    and "\<forall>i<k - 1. transient (Upload_attempt f h jsonData s i)"
    and "Upload_attempt f h jsonData s (k - 1) = Sent (Inr resp)" "StatusCode resp < 500"
  shows "UploadBase64File f h filename extension mimetype base64file s
           = (parse_response h resp, (run_at f s (k - 1))
                \<lparr>tm := snd (GetToken (tokenManager f) (tm_at f s (k - 1))), sent := k\<rparr>)"
  unfolding Upload_enters_loop [OF assms(1-5)]
  by (rule after_answered [OF assms(6,7) _ _ assms(10)])
     (use assms(8,9) in \<open>simp_all add: Upload_attempt_def\<close>)

lemma Delete_no_token:
  assumes "\<forall>i<n. transient (Delete_attempt f h fileID s i)" "int n < maxRetry f"
    and "Delete_attempt f h fileID s n = NoToken err"
  shows "Delete f h fileID s
           = (Inl err, (run_at f s n)\<lparr>tm := snd (GetToken (tokenManager f) (tm_at f s n))\<rparr>)"
  unfolding Delete_def
  by (rule after_no_token [OF _ assms(2)]) (use assms(1,3) in \<open>simp_all add: Delete_attempt_def\<close>)

lemma GetFileById_no_token:
  assumes "\<forall>i<n. transient (GetFileById_attempt f h fileID s i)" "int n < maxRetry f"
    and "GetFileById_attempt f h fileID s n = NoToken err"
  shows "GetFileById f h fileID s
           = (Inl err, (run_at f s n)\<lparr>tm := snd (GetToken (tokenManager f) (tm_at f s n))\<rparr>)"
  unfolding GetFileById_def
  by (rule after_no_token [OF _ assms(2)]) (use assms(1,3) in \<open>simp_all add: GetFileById_attempt_def\<close>)

lemma Upload_no_token:
  assumes "filename \<noteq> []" "extension \<noteq> []" "mimetype \<noteq> []" "base64file \<noteq> []"
    and "Marshal h (upload_fields filename extension mimetype base64file) = Inr jsonData"
    and "\<forall>i<n. transient (Upload_attempt f h jsonData s i)" "int n < maxRetry f"
    and "Upload_attempt f h jsonData s n = NoToken err"
  shows "UploadBase64File f h filename extension mimetype base64file s
           = (Inl err, (run_at f s n)\<lparr>tm := snd (GetToken (tokenManager f) (tm_at f s n))\<rparr>)"
  unfolding Upload_enters_loop [OF assms(1-5)]
  by (rule after_no_token [OF _ assms(7)]) (use assms(6,8) in \<open>simp_all add: Upload_attempt_def\<close>)

subsection \<open>The concrete run\<close>

lemma example_tm_at: "tm_at (example_manager good) s n = s + n"
  by (induction n) (simp_all add: example_manager_def NewFileStorageManager_def example_tm_def)

lemma example_attempt:
  "s + n < good \<Longrightarrow>
   attempt_at (example_manager good) (example_host bad) method url body s n
     = Sent (Inr (Response (if n < bad then 503 else 200) (Inr ''{}'')))"
  by (simp add: attempt_at_def example_tm_at)
     (simp add: example_manager_def NewFileStorageManager_def example_tm_def example_host_def
        http_NewRequest_def)

lemma example_attempt_no_token:
  "good \<le> s + n \<Longrightarrow>
   attempt_at (example_manager good) (example_host bad) method url body s n
     = NoToken (Errorf ''unauthorized'')"
  by (simp add: attempt_at_def example_tm_at)
     (simp add: example_manager_def NewFileStorageManager_def example_tm_def)

lemma example_maxRetry: "maxRetry (example_manager good) = 3"
  by (simp add: example_manager_def NewFileStorageManager_def)

lemma example_unmarshal: "Unmarshal (example_host bad) body = Inr example_ok"
  by (simp add: example_host_def)

lemma example_marshal: "Marshal (example_host bad) kv = Inr ''{}''"
  by (simp add: example_host_def)

text \<open>
  C1. With \<^verbatim>\<open>maxRetry\<close> at least 1, for \<^verbatim>\<open>Delete\<close>, \<^verbatim>\<open>GetFileById\<close> and
  \<^verbatim>\<open>UploadBase64File\<close> (its arguments non-empty and marshalled): when each of the
  \<^verbatim>\<open>maxRetry\<close> attempts is sent and ends in a transport failure or a 5xx response, the
  loop has called \<^verbatim>\<open>GenerateToken\<close> exactly \<^verbatim>\<open>maxRetry\<close> times and the operation fails
  with the error "exceeded maximum retry attempts"; and when the \<open>k\<close>-th attempt, with
  \<open>k\<close> at most \<^verbatim>\<open>maxRetry\<close>, is the first to return a response below 500, the loop has
  called \<^verbatim>\<open>GenerateToken\<close> exactly \<open>k - 1\<close> times and the operation returns the
  \<^verbatim>\<open>FileResponse\<close> that \<^verbatim>\<open>json.Unmarshal\<close> makes of the body of that response (and the
  error of reading or of unmarshalling the body, when one of the two fails).
\<close>

theorem retry_bound:
  assumes "1 \<le> maxRetry f"
  shows
   "((\<forall>i<nat (maxRetry f). transient (Delete_attempt f h fileID s i)) \<longrightarrow>
       fst (Delete f h fileID s) = Inl (Errorf ''exceeded maximum retry attempts'') \<and>
       forced (snd (Delete f h fileID s)) = nat (maxRetry f))
  \<and> ((\<forall>i<nat (maxRetry f). transient (GetFileById_attempt f h fileID s i)) \<longrightarrow>
       fst (GetFileById f h fileID s) = Inl (Errorf ''exceeded maximum retry attempts'') \<and>
       forced (snd (GetFileById f h fileID s)) = nat (maxRetry f))
  \<and> (filename \<noteq> [] \<and> extension \<noteq> [] \<and> mimetype \<noteq> [] \<and> base64file \<noteq> [] \<and>
      Marshal h (upload_fields filename extension mimetype base64file) = Inr jsonData \<and>
      (\<forall>i<nat (maxRetry f). transient (Upload_attempt f h jsonData s i)) \<longrightarrow>
       fst (UploadBase64File f h filename extension mimetype base64file s)
         = Inl (Errorf ''exceeded maximum retry attempts'') \<and>
       forced (snd (UploadBase64File f h filename extension mimetype base64file s)) = nat (maxRetry f))
  \<and> (1 \<le> k \<and> int k \<le> maxRetry f \<and>
      (\<forall>i<k - 1. transient (Delete_attempt f h fileID s i)) \<and>
      Delete_attempt f h fileID s (k - 1) = Sent (Inr resp) \<and> StatusCode resp < 500 \<longrightarrow>
       fst (Delete f h fileID s)
         = (case ReadAll resp of Inl err \<Rightarrow> Inl err | Inr body \<Rightarrow> Unmarshal h body) \<and>
       (\<forall>body fr. ReadAll resp = Inr body \<and> Unmarshal h body = Inr fr \<longrightarrow>
          fst (Delete f h fileID s) = Inr fr) \<and>
       forced (snd (Delete f h fileID s)) = k - 1)
  \<and> (1 \<le> k \<and> int k \<le> maxRetry f \<and>
      (\<forall>i<k - 1. transient (GetFileById_attempt f h fileID s i)) \<and>
      GetFileById_attempt f h fileID s (k - 1) = Sent (Inr resp) \<and> StatusCode resp < 500 \<longrightarrow>
       fst (GetFileById f h fileID s)
         = (case ReadAll resp of Inl err \<Rightarrow> Inl err | Inr body \<Rightarrow> Unmarshal h body) \<and>
       (\<forall>body fr. ReadAll resp = Inr body \<and> Unmarshal h body = Inr fr \<longrightarrow>
          fst (GetFileById f h fileID s) = Inr fr) \<and>
       forced (snd (GetFileById f h fileID s)) = k - 1)
  \<and> (filename \<noteq> [] \<and> extension \<noteq> [] \<and> mimetype \<noteq> [] \<and> base64file \<noteq> [] \<and>
      Marshal h (upload_fields filename extension mimetype base64file) = Inr jsonData \<and>
      1 \<le> k \<and> int k \<le> maxRetry f \<and>
      (\<forall>i<k - 1. transient (Upload_attempt f h jsonData s i)) \<and>
      Upload_attempt f h jsonData s (k - 1) = Sent (Inr resp) \<and> StatusCode resp < 500 \<longrightarrow>
       fst (UploadBase64File f h filename extension mimetype base64file s)
         = (case ReadAll resp of Inl err \<Rightarrow> Inl err | Inr body \<Rightarrow> Unmarshal h body) \<and>
       (\<forall>body fr. ReadAll resp = Inr body \<and> Unmarshal h body = Inr fr \<longrightarrow>
          fst (UploadBase64File f h filename extension mimetype base64file s) = Inr fr) \<and>
       forced (snd (UploadBase64File f h filename extension mimetype base64file s)) = k - 1)"
proof -
  have m: "0 \<le> maxRetry f" using assms by simp
  show ?thesis
    by (intro conjI impI allI; (elim conjE)?)
       (simp_all add: Delete_exhausted [OF m] GetFileById_exhausted [OF m] Upload_exhausted [OF _ _ _ _ _ m]
          Delete_answered GetFileById_answered Upload_answered run_at_def parse_response_def)
qed

theorem retry_bound_witness:
  "fst (Delete (example_manager 9) (example_host 3) ''id'' 0)
     = Inl (Errorf ''exceeded maximum retry attempts'')
   \<and> forced (snd (Delete (example_manager 9) (example_host 3) ''id'' 0)) = 3
   \<and> fst (GetFileById (example_manager 9) (example_host 3) ''id'' 0)
     = Inl (Errorf ''exceeded maximum retry attempts'')
   \<and> forced (snd (GetFileById (example_manager 9) (example_host 3) ''id'' 0)) = 3
   \<and> fst (UploadBase64File (example_manager 9) (example_host 3) ''a'' ''txt'' ''text/plain'' ''QQ=='' 0)
     = Inl (Errorf ''exceeded maximum retry attempts'')
   \<and> forced (snd (UploadBase64File (example_manager 9) (example_host 3) ''a'' ''txt'' ''text/plain'' ''QQ=='' 0)) = 3
   \<and> fst (Delete (example_manager 9) (example_host 2) ''id'' 0) = Inr example_ok
   \<and> forced (snd (Delete (example_manager 9) (example_host 2) ''id'' 0)) = 2
   \<and> fst (GetFileById (example_manager 9) (example_host 2) ''id'' 0) = Inr example_ok
   \<and> forced (snd (GetFileById (example_manager 9) (example_host 2) ''id'' 0)) = 2
   \<and> fst (UploadBase64File (example_manager 9) (example_host 2) ''a'' ''txt'' ''text/plain'' ''QQ=='' 0)
     = Inr example_ok
   \<and> forced (snd (UploadBase64File (example_manager 9) (example_host 2) ''a'' ''txt'' ''text/plain'' ''QQ=='' 0)) = 2"
  using retry_bound [of "example_manager 9" "example_host 3" "''id''" 0
          "''a''" "''txt''" "''text/plain''" "''QQ==''" "''{}''" 3 "Response 200 (Inr ''{}'')"]
        retry_bound [of "example_manager 9" "example_host 2" "''id''" 0
          "''a''" "''txt''" "''text/plain''" "''QQ==''" "''{}''" 3 "Response 200 (Inr ''{}'')"]
  by (simp add: example_maxRetry example_attempt example_unmarshal example_marshal
        Delete_attempt_def GetFileById_attempt_def Upload_attempt_def)

text \<open>
  C5. In \<^verbatim>\<open>Delete\<close>, \<^verbatim>\<open>GetFileById\<close> and \<^verbatim>\<open>UploadBase64File\<close>, when \<^verbatim>\<open>GetToken\<close>
  fails in an iteration of the loop (iteration \<open>n\<close>, reached after \<open>n\<close> transient
  attempts), the operation returns that error: the requests sent are the \<open>n\<close> of the
  earlier iterations, the attempt counter is still \<open>n\<close>, and the loop has regenerated the
  token \<open>n\<close> times, so nothing was sent, counted or retried for that iteration.
\<close>

theorem token_failure_aborts:
  "((\<forall>i<n. transient (Delete_attempt f h fileID s i)) \<and> int n < maxRetry f \<and>
    Delete_attempt f h fileID s n = NoToken err \<longrightarrow>
      fst (Delete f h fileID s) = Inl err \<and>
      sent (snd (Delete f h fileID s)) = n \<and>
      attempts (snd (Delete f h fileID s)) = int n \<and>
      forced (snd (Delete f h fileID s)) = n)
 \<and> ((\<forall>i<n. transient (GetFileById_attempt f h fileID s i)) \<and> int n < maxRetry f \<and>
    GetFileById_attempt f h fileID s n = NoToken err \<longrightarrow>
      fst (GetFileById f h fileID s) = Inl err \<and>
      sent (snd (GetFileById f h fileID s)) = n \<and>
      attempts (snd (GetFileById f h fileID s)) = int n \<and>
      forced (snd (GetFileById f h fileID s)) = n)
 \<and> (filename \<noteq> [] \<and> extension \<noteq> [] \<and> mimetype \<noteq> [] \<and> base64file \<noteq> [] \<and>
    Marshal h (upload_fields filename extension mimetype base64file) = Inr jsonData \<and>
    (\<forall>i<n. transient (Upload_attempt f h jsonData s i)) \<and> int n < maxRetry f \<and>
    Upload_attempt f h jsonData s n = NoToken err \<longrightarrow>
      fst (UploadBase64File f h filename extension mimetype base64file s) = Inl err \<and>
      sent (snd (UploadBase64File f h filename extension mimetype base64file s)) = n \<and>
      attempts (snd (UploadBase64File f h filename extension mimetype base64file s)) = int n \<and>
      forced (snd (UploadBase64File f h filename extension mimetype base64file s)) = n)"
  by (intro conjI impI; (elim conjE)?)
     (simp_all add: Delete_no_token GetFileById_no_token Upload_no_token run_at_def)

theorem token_failure_aborts_witness:
  "fst (Delete (example_manager 1) (example_host 3) ''id'' 0) = Inl (Errorf ''unauthorized'')
   \<and> sent (snd (Delete (example_manager 1) (example_host 3) ''id'' 0)) = 1
   \<and> attempts (snd (Delete (example_manager 1) (example_host 3) ''id'' 0)) = 1
   \<and> forced (snd (Delete (example_manager 1) (example_host 3) ''id'' 0)) = 1
   \<and> fst (GetFileById (example_manager 1) (example_host 3) ''id'' 0) = Inl (Errorf ''unauthorized'')
   \<and> sent (snd (GetFileById (example_manager 1) (example_host 3) ''id'' 0)) = 1
   \<and> fst (UploadBase64File (example_manager 1) (example_host 3) ''a'' ''txt'' ''text/plain'' ''QQ=='' 0)
       = Inl (Errorf ''unauthorized'')
   \<and> sent (snd (UploadBase64File (example_manager 1) (example_host 3) ''a'' ''txt'' ''text/plain'' ''QQ=='' 0)) = 1"
  using token_failure_aborts [of 1 "example_manager 1" "example_host 3" "''id''" 0
          "Errorf ''unauthorized''" "''a''" "''txt''" "''text/plain''" "''QQ==''" "''{}''"]
  by (simp add: example_maxRetry example_attempt example_attempt_no_token example_marshal
        Delete_attempt_def GetFileById_attempt_def Upload_attempt_def)

section \<open>Properties of the object-store operations\<close>

subsection \<open>Deleting a key that is not there\<close>

lemma AwsDelete_absent_key:
  assumes "NewSession_err k = None" "DeleteObject_err k = None"
    and "s3 w (aws_bucket f bucketname) = Some objs" "objs awsFileID = None"
  shows "fst (AwsDelete f k w awsFileID bucketname)
           = Inr (FileResponse_zero\<lparr>Status := StatusSuccess, Message := ''DELETE '' @ awsFileID\<rparr>)"
  using assms
  by (simp add: AwsDelete_def GetAwsClient_def s3_DeleteObject_def aws_bucket_def Let_def)

lemma GcsDelete_absent_key:
  assumes "GetGcsClient f k projectID = Inr ()" "BucketAttrs_err k = None"
    and "gcs w (gcs_bucket f bucketname) = Some objs" "objs gcsFileID = None"
  shows "GcsDelete f k w gcsFileID bucketname projectID
           = (Inr (failure (''Object '' @ gcsFileID @ '' not found'')), w)"
  using assms
  apply (simp only: GcsDelete_def gcs_bucket_def [symmetric])
  apply (simp add: Let_def gcs_BucketAttrs_def gcs_ObjectAttrs_def split: option.split)
  done

text \<open>
  C2. Deleting the key \<^verbatim>\<open>missing.txt\<close>, which the bucket does not hold, with libraries
  that report no fault: \<^verbatim>\<open>GcsDelete\<close> looks the object up first and answers ERR with
  "Object missing.txt not found"; \<^verbatim>\<open>AwsDelete\<close> makes no such lookup, the service
  accepts the request, and the answer is OK with "DELETE missing.txt".
\<close>

theorem AwsDelete_missing_key_reports_success:
  "s3 example_world ''bucket'' = Some [''a.txt'' \<mapsto> example_object]
   \<and> [''a.txt'' \<mapsto> example_object] ''missing.txt'' = None
   \<and> fst (AwsDelete (example_manager 9) example_sdk example_world ''missing.txt'' ''bucket'')
       = Inr (FileResponse_zero\<lparr>Status := ''OK'', Message := ''DELETE missing.txt''\<rparr>)
   \<and> fst (GcsDelete (example_manager 9) example_sdk example_world ''missing.txt'' ''bucket'' ''project'')
       = Inr (FileResponse_zero\<lparr>Status := ''ERR'', Message := ''Object missing.txt not found''\<rparr>)"
  by (simp add: AwsDelete_def GcsDelete_def GetAwsClient_def GetGcsClient_def s3_DeleteObject_def
        gcs_BucketAttrs_def gcs_ObjectAttrs_def example_world_def example_sdk_def
        example_manager_def NewFileStorageManager_def example_config_def
        StatusSuccess_def StatusError_def failure_def Let_def)

subsection \<open>Failures of the libraries\<close>

lemma upload_key_alt:
  "(if subdirectory \<noteq> [] then subdirectory @ ''/'' @ uuid @ ''.'' @ extension_of (filepath_Base (Filename file))
    else uuid @ ''.'' @ extension_of (filepath_Base (Filename file)))
   = upload_key subdirectory uuid file"
  by (simp add: upload_key_def)

lemma AwsUpload_failures:
  shows "(Open_err file = None \<and>
     Read file = Inr data \<and>
     GetAwsClient f k = Inl err \<longrightarrow>
      fst (AwsUpload f k w file subdirectory bucketname uuid now) = Returns (Inr (failure (Error err))))"
    and "(Open_err file = None \<and>
     Read file = Inr data \<and>
     GetAwsClient f k = Inr () \<and>
     fst (s3_PutObject k w (aws_bucket f bucketname) (upload_key subdirectory uuid file) data (ContentTypeHeader file) now) = Some err \<longrightarrow>
      fst (AwsUpload f k w file subdirectory bucketname uuid now) = Returns (Inr (failure (Error err))))"
  by (simp_all only: AwsUpload_def Let_def aws_bucket_def [symmetric] gcs_bucket_def [symmetric]
        upload_key_alt link_expiry_def [symmetric])
     (simp_all split: prod.split)

lemma AwsDelete_failures:
  shows "(GetAwsClient f k = Inl err \<longrightarrow>
      fst (AwsDelete f k w fileID bucketname) = Inr (failure (Error err)))"
    and "(GetAwsClient f k = Inr () \<and>
     fst (s3_DeleteObject k w (aws_bucket f bucketname) fileID) = Some err \<longrightarrow>
      fst (AwsDelete f k w fileID bucketname) = Inr (failure (Error err)))"
  by (simp_all only: AwsDelete_def Let_def aws_bucket_def [symmetric] gcs_bucket_def [symmetric]
        upload_key_alt link_expiry_def [symmetric])
     (simp_all split: prod.split)

lemma AwsGetFileById_failures:
  shows "(GetAwsClient f k = Inl err \<longrightarrow>
      fst (AwsGetFileById f k w fileID bucketname now) = Inr (failure (Error err)))"
    and "(GetAwsClient f k = Inr () \<and>
     s3_GetObject k w (aws_bucket f bucketname) fileID = Inl err \<longrightarrow>
      fst (AwsGetFileById f k w fileID bucketname now) = Inr (failure (Error err)))"
    and "(GetAwsClient f k = Inr () \<and>
     s3_GetObject k w (aws_bucket f bucketname) fileID = Inr obj \<and>
     io_ReadAll k (Content obj) = Inl err \<longrightarrow>
      fst (AwsGetFileById f k w fileID bucketname now) = Inr (failure (Error err)))"
  by (simp_all only: AwsGetFileById_def Let_def aws_bucket_def [symmetric] gcs_bucket_def [symmetric]
        upload_key_alt link_expiry_def [symmetric])
     (simp_all split: prod.split)

lemma AwsDownloadFile_failures:
  shows "(GetAwsClient f k = Inl err \<longrightarrow>
      fst (AwsDownloadFile f k w fileID bucketname saveAsPath) = Inr (failure (Error err)))"
    and "(GetAwsClient f k = Inr () \<and>
     fst (os_Create k w saveAsPath) = Some err \<longrightarrow>
      fst (AwsDownloadFile f k w fileID bucketname saveAsPath) = Inr (failure (Error err)))"
    and "(GetAwsClient f k = Inr () \<and>
     os_Create k w saveAsPath = (None, w') \<and>
     s3_GetObject k w' (aws_bucket f bucketname) fileID = Inl err \<longrightarrow>
      fst (AwsDownloadFile f k w fileID bucketname saveAsPath) = Inr (failure (Error err)))"
    and "(GetAwsClient f k = Inr () \<and>
     os_Create k w saveAsPath = (None, w') \<and>
     s3_GetObject k w' (aws_bucket f bucketname) fileID = Inr obj \<and>
     fst (io_Copy k w' saveAsPath (Content obj)) = Some err \<longrightarrow>
      fst (AwsDownloadFile f k w fileID bucketname saveAsPath) = Inr (failure (Error err)))"
  by (simp_all only: AwsDownloadFile_def Let_def aws_bucket_def [symmetric] gcs_bucket_def [symmetric]
        upload_key_alt link_expiry_def [symmetric])
     (simp_all split: prod.split)

lemma AwsGetTemporaryPublicLink_failures:
  shows "(GetAwsClient f k = Inl err \<longrightarrow>
      fst (AwsGetTemporaryPublicLink f k w fileID expiry bucketname now now') = Inr (failure (Error err)))"
    and "(GetAwsClient f k = Inr () \<and>
     Presign k (aws_bucket f bucketname) fileID (Time_Sub (link_expiry expiry now) now') = Inl err \<longrightarrow>
      fst (AwsGetTemporaryPublicLink f k w fileID expiry bucketname now now') = Inr (failure (Error err)))"
  by (simp_all only: AwsGetTemporaryPublicLink_def Let_def aws_bucket_def [symmetric] gcs_bucket_def [symmetric]
        upload_key_alt link_expiry_def [symmetric])
     (simp_all split: prod.split)

lemma GcsUpload_failures:
  shows "(Open_err file = None \<and>
     Read file = Inr data \<and>
     GetGcsClient f k projectID = Inl err \<longrightarrow>
      fst (GcsUpload f k w file subdirectory bucketname projectID uuid now) = Returns (Inr (failure (Error err))))"
    and "(Open_err file = None \<and>
     Read file = Inr data \<and>
     GetGcsClient f k projectID = Inr () \<and>
     gcs_BucketAttrs k w (gcs_bucket f bucketname) = Some err \<longrightarrow>
      fst (GcsUpload f k w file subdirectory bucketname projectID uuid now) = Returns (Inr (failure (''Bucket not found''))))"
    and "(Open_err file = None \<and>
     Read file = Inr data \<and>
     GetGcsClient f k projectID = Inr () \<and>
     gcs_BucketAttrs k w (gcs_bucket f bucketname) = None \<and>
     gcs_Write k data = Some err \<longrightarrow>
      fst (GcsUpload f k w file subdirectory bucketname projectID uuid now) = Returns (Inr (failure (Error err))))"
    and "(Open_err file = None \<and>
     Read file = Inr data \<and>
     GetGcsClient f k projectID = Inr () \<and>
     gcs_BucketAttrs k w (gcs_bucket f bucketname) = None \<and>
     gcs_Write k data = None \<and>
     fst (gcs_Close k w (gcs_bucket f bucketname) (upload_key subdirectory uuid file) data (ContentTypeHeader file) now) = Some err \<longrightarrow>
      fst (GcsUpload f k w file subdirectory bucketname projectID uuid now) = Returns (Inr (failure (Error err))))"
    and "(Open_err file = None \<and>
     Read file = Inr data \<and>
     GetGcsClient f k projectID = Inr () \<and>
     gcs_BucketAttrs k w (gcs_bucket f bucketname) = None \<and>
     gcs_Write k data = None \<and>
     gcs_Close k w (gcs_bucket f bucketname) (upload_key subdirectory uuid file) data (ContentTypeHeader file) now = (None, w') \<and>
     gcs_ObjectAttrs k w' (gcs_bucket f bucketname) (upload_key subdirectory uuid file) = Inl err \<longrightarrow>
      fst (GcsUpload f k w file subdirectory bucketname projectID uuid now) = Returns (Inr (failure (Error err))))"
  by (simp_all only: GcsUpload_def Let_def aws_bucket_def [symmetric] gcs_bucket_def [symmetric]
        upload_key_alt link_expiry_def [symmetric])
     (simp_all split: prod.split)

lemma GcsDelete_failures:
  shows "(GetGcsClient f k projectID = Inl err \<longrightarrow>
      fst (GcsDelete f k w fileID bucketname projectID) = Inr (failure (Error err)))"
    and "(GetGcsClient f k projectID = Inr () \<and>
     gcs_BucketAttrs k w (gcs_bucket f bucketname) = Some err \<longrightarrow>
      fst (GcsDelete f k w fileID bucketname projectID) = Inr (failure (''Bucket not found'')))"
    and "(GetGcsClient f k projectID = Inr () \<and>
     gcs_BucketAttrs k w (gcs_bucket f bucketname) = None \<and>
     gcs_ObjectAttrs k w (gcs_bucket f bucketname) fileID = Inl err \<longrightarrow>
      fst (GcsDelete f k w fileID bucketname projectID) = Inr (failure (''Object '' @ fileID @ '' not found'')))"
    and "(GetGcsClient f k projectID = Inr () \<and>
     gcs_BucketAttrs k w (gcs_bucket f bucketname) = None \<and>
     gcs_ObjectAttrs k w (gcs_bucket f bucketname) fileID = Inr attrs \<and>
     fst (gcs_Delete k w (gcs_bucket f bucketname) fileID) = Some err \<longrightarrow>
      fst (GcsDelete f k w fileID bucketname projectID) = Inr (failure (Error err)))"
  by (simp_all only: GcsDelete_def Let_def aws_bucket_def [symmetric] gcs_bucket_def [symmetric]
        upload_key_alt link_expiry_def [symmetric])
     (simp_all split: prod.split)

lemma GcsGetFileById_failures:
  shows "(GetGcsClient f k projectID = Inl err \<longrightarrow>
      fst (GcsGetFileById f k w fileID bucketname projectID) = Inr (failure (Error err)))"
    and "(GetGcsClient f k projectID = Inr () \<and>
     gcs_BucketAttrs k w (gcs_bucket f bucketname) = Some err \<longrightarrow>
      fst (GcsGetFileById f k w fileID bucketname projectID) = Inr (failure (''Bucket not found'')))"
    and "(GetGcsClient f k projectID = Inr () \<and>
     gcs_BucketAttrs k w (gcs_bucket f bucketname) = None \<and>
     gcs_ObjectAttrs k w (gcs_bucket f bucketname) fileID = Inl err \<longrightarrow>
      fst (GcsGetFileById f k w fileID bucketname projectID) = Inr (failure (''Object '' @ fileID @ '' not found'')))"
    and "(GetGcsClient f k projectID = Inr () \<and>
     gcs_BucketAttrs k w (gcs_bucket f bucketname) = None \<and>
     gcs_ObjectAttrs k w (gcs_bucket f bucketname) fileID = Inr attrs \<and>
     gcs_NewReader k w (gcs_bucket f bucketname) fileID = Inl err \<longrightarrow>
      fst (GcsGetFileById f k w fileID bucketname projectID) = Inr (failure (Error err)))"
    and "(GetGcsClient f k projectID = Inr () \<and>
     gcs_BucketAttrs k w (gcs_bucket f bucketname) = None \<and>
     gcs_ObjectAttrs k w (gcs_bucket f bucketname) fileID = Inr attrs \<and>
     gcs_NewReader k w (gcs_bucket f bucketname) fileID = Inr reader \<and>
     io_ReadAll k reader = Inl err \<longrightarrow>
      fst (GcsGetFileById f k w fileID bucketname projectID) = Inr (failure (Error err)))"
  by (simp_all only: GcsGetFileById_def Let_def aws_bucket_def [symmetric] gcs_bucket_def [symmetric]
        upload_key_alt link_expiry_def [symmetric])
     (simp_all split: prod.split)

lemma GcsDownloadFile_failures:
  shows "(GetGcsClient f k projectID = Inl err \<longrightarrow>
      fst (GcsDownloadFile f k w fileID saveAsPath bucketname projectID) = Inr (failure (Error err)))"
    and "(GetGcsClient f k projectID = Inr () \<and>
     gcs_BucketAttrs k w (gcs_bucket f bucketname) = Some err \<longrightarrow>
      fst (GcsDownloadFile f k w fileID saveAsPath bucketname projectID) = Inr (failure (''Bucket not found'')))"
    and "(GetGcsClient f k projectID = Inr () \<and>
     gcs_BucketAttrs k w (gcs_bucket f bucketname) = None \<and>
     gcs_ObjectAttrs k w (gcs_bucket f bucketname) fileID = Inl err \<longrightarrow>
      fst (GcsDownloadFile f k w fileID saveAsPath bucketname projectID) = Inr (failure (''Object '' @ fileID @ '' not found'')))"
    and "(GetGcsClient f k projectID = Inr () \<and>
     gcs_BucketAttrs k w (gcs_bucket f bucketname) = None \<and>
     gcs_ObjectAttrs k w (gcs_bucket f bucketname) fileID = Inr attrs \<and>
     fst (os_Create k w saveAsPath) = Some err \<longrightarrow>
      fst (GcsDownloadFile f k w fileID saveAsPath bucketname projectID) = Inr (failure (Error err)))"
    and "(GetGcsClient f k projectID = Inr () \<and>
     gcs_BucketAttrs k w (gcs_bucket f bucketname) = None \<and>
     gcs_ObjectAttrs k w (gcs_bucket f bucketname) fileID = Inr attrs \<and>
     os_Create k w saveAsPath = (None, w') \<and>
     gcs_NewReader k w' (gcs_bucket f bucketname) fileID = Inl err \<longrightarrow>
      fst (GcsDownloadFile f k w fileID saveAsPath bucketname projectID) = Inr (failure (Error err)))"
    and "(GetGcsClient f k projectID = Inr () \<and>
     gcs_BucketAttrs k w (gcs_bucket f bucketname) = None \<and>
     gcs_ObjectAttrs k w (gcs_bucket f bucketname) fileID = Inr attrs \<and>
     os_Create k w saveAsPath = (None, w') \<and>
     gcs_NewReader k w' (gcs_bucket f bucketname) fileID = Inr reader \<and>
     fst (io_Copy k w' saveAsPath reader) = Some err \<longrightarrow>
      fst (GcsDownloadFile f k w fileID saveAsPath bucketname projectID) = Inr (failure (Error err)))"
  by (simp_all only: GcsDownloadFile_def Let_def aws_bucket_def [symmetric] gcs_bucket_def [symmetric]
        upload_key_alt link_expiry_def [symmetric])
     (simp_all split: prod.split)

lemma GcsGetFileByIdAsString_failures:
  shows "(GetGcsClient f k projectID = Inl err \<longrightarrow>
      fst (GcsGetFileByIdAsString f k w fileID bucketname projectID) = Inr (failure (Error err)))"
    and "(GetGcsClient f k projectID = Inr () \<and>
     gcs_BucketAttrs k w (gcs_bucket f bucketname) = Some err \<longrightarrow>
      fst (GcsGetFileByIdAsString f k w fileID bucketname projectID) = Inr (failure (''Bucket not found'')))"
    and "(GetGcsClient f k projectID = Inr () \<and>
     gcs_BucketAttrs k w (gcs_bucket f bucketname) = None \<and>
     gcs_ObjectAttrs k w (gcs_bucket f bucketname) fileID = Inl err \<longrightarrow>
      fst (GcsGetFileByIdAsString f k w fileID bucketname projectID) = Inr (failure (''Object '' @ fileID @ '' not found'')))"
    and "(GetGcsClient f k projectID = Inr () \<and>
     gcs_BucketAttrs k w (gcs_bucket f bucketname) = None \<and>
     gcs_ObjectAttrs k w (gcs_bucket f bucketname) fileID = Inr attrs \<and>
     gcs_NewReader k w (gcs_bucket f bucketname) fileID = Inl err \<longrightarrow>
      fst (GcsGetFileByIdAsString f k w fileID bucketname projectID) = Inr (failure (Error err)))"
    and "(GetGcsClient f k projectID = Inr () \<and>
     gcs_BucketAttrs k w (gcs_bucket f bucketname) = None \<and>
     gcs_ObjectAttrs k w (gcs_bucket f bucketname) fileID = Inr attrs \<and>
     gcs_NewReader k w (gcs_bucket f bucketname) fileID = Inr reader \<and>
     io_ReadAll k reader = Inl err \<longrightarrow>
      fst (GcsGetFileByIdAsString f k w fileID bucketname projectID) = Inr (failure (Error err)))"
  by (simp_all only: GcsGetFileByIdAsString_def Let_def aws_bucket_def [symmetric] gcs_bucket_def [symmetric]
        upload_key_alt link_expiry_def [symmetric])
     (simp_all split: prod.split)

lemma GcsGetFileByIdAsStream_failures:
  shows "(GetGcsClient f k projectID = Inl err \<longrightarrow>
      fst (GcsGetFileByIdAsStream f k w fileID bucketname projectID) = Inr (failure (Error err)))"
    and "(GetGcsClient f k projectID = Inr () \<and>
     gcs_BucketAttrs k w (gcs_bucket f bucketname) = Some err \<longrightarrow>
      fst (GcsGetFileByIdAsStream f k w fileID bucketname projectID) = Inr (failure (''Bucket not found'')))"
    and "(GetGcsClient f k projectID = Inr () \<and>
     gcs_BucketAttrs k w (gcs_bucket f bucketname) = None \<and>
     gcs_ObjectAttrs k w (gcs_bucket f bucketname) fileID = Inl err \<longrightarrow>
      fst (GcsGetFileByIdAsStream f k w fileID bucketname projectID) = Inr (failure (''Object '' @ fileID @ '' not found'')))"
    and "(GetGcsClient f k projectID = Inr () \<and>
     gcs_BucketAttrs k w (gcs_bucket f bucketname) = None \<and>
     gcs_ObjectAttrs k w (gcs_bucket f bucketname) fileID = Inr attrs \<and>
     gcs_NewReader k w (gcs_bucket f bucketname) fileID = Inl err \<longrightarrow>
      fst (GcsGetFileByIdAsStream f k w fileID bucketname projectID) = Inr (failure (Error err)))"
  by (simp_all only: GcsGetFileByIdAsStream_def Let_def aws_bucket_def [symmetric] gcs_bucket_def [symmetric]
        upload_key_alt link_expiry_def [symmetric])
     (simp_all split: prod.split)

lemma GcsGetTemporaryPublicLink_failures:
  shows "(GetGcsClient f k projectID = Inl err \<longrightarrow>
      fst (GcsGetTemporaryPublicLink f k w fileID expiry bucketname projectID now) = Inr (failure (Error err)))"
    and "(GetGcsClient f k projectID = Inr () \<and>
     gcs_BucketAttrs k w (gcs_bucket f bucketname) = Some err \<longrightarrow>
      fst (GcsGetTemporaryPublicLink f k w fileID expiry bucketname projectID now) = Inr (failure (''Bucket not found'')))"
    and "(GetGcsClient f k projectID = Inr () \<and>
     gcs_BucketAttrs k w (gcs_bucket f bucketname) = None \<and>
     gcs_ObjectAttrs k w (gcs_bucket f bucketname) fileID = Inl err \<longrightarrow>
      fst (GcsGetTemporaryPublicLink f k w fileID expiry bucketname projectID now) = Inr (failure (''Object '' @ fileID @ '' not found'')))"
    and "(GetGcsClient f k projectID = Inr () \<and>
     gcs_BucketAttrs k w (gcs_bucket f bucketname) = None \<and>
     gcs_ObjectAttrs k w (gcs_bucket f bucketname) fileID = Inr attrs \<and>
     os_ReadFile k w (GCSKeyPath (config f)) = Inl err \<longrightarrow>
      fst (GcsGetTemporaryPublicLink f k w fileID expiry bucketname projectID now) = Inr (failure (''Failed to read service account key: '' @ Error err)))"
    and "(GetGcsClient f k projectID = Inr () \<and>
     gcs_BucketAttrs k w (gcs_bucket f bucketname) = None \<and>
     gcs_ObjectAttrs k w (gcs_bucket f bucketname) fileID = Inr attrs \<and>
     os_ReadFile k w (GCSKeyPath (config f)) = Inr jsonKey \<and>
     KeyUnmarshal k jsonKey = Inl err \<longrightarrow>
      fst (GcsGetTemporaryPublicLink f k w fileID expiry bucketname projectID now) = Inr (failure (''Failed to parse service account key: '' @ Error err)))"
    and "(GetGcsClient f k projectID = Inr () \<and>
     gcs_BucketAttrs k w (gcs_bucket f bucketname) = None \<and>
     gcs_ObjectAttrs k w (gcs_bucket f bucketname) fileID = Inr attrs \<and>
     os_ReadFile k w (GCSKeyPath (config f)) = Inr jsonKey \<and>
     KeyUnmarshal k jsonKey = Inr (email, pk) \<and>
     SignedURL k (gcs_bucket f bucketname) fileID (link_expiry expiry now) email pk = Inl err \<longrightarrow>
      fst (GcsGetTemporaryPublicLink f k w fileID expiry bucketname projectID now) = Inr (failure (Error err)))"
  by (simp_all only: GcsGetTemporaryPublicLink_def Let_def aws_bucket_def [symmetric] gcs_bucket_def [symmetric]
        upload_key_alt link_expiry_def [symmetric])
     (simp_all split: prod.split)

text \<open>
  C4. In each of the twelve object-store operations, each call into a library that can
  fail (building the client, looking up the bucket or the object, reading, writing,
  closing, deleting, creating the local file, copying, reading and parsing the key file,
  signing), when it is reached and fails, makes the operation return a
  \<^verbatim>\<open>FileResponse\<close> and a \<^verbatim>\<open>nil\<close> error; the response is
  \<^verbatim>\<open>{Status: "ERR", Message: msg}\<close>, where \<open>msg\<close> is the text of the error or the
  fixed text of that branch. (For the two uploads the file has been opened and read.)
\<close>

theorem sdk_failures_become_ERR:
  "(Open_err file = None \<and>
    Read file = Inr data \<and>
    GetAwsClient f k = Inl err \<longrightarrow>
     fst (AwsUpload f k w file subdirectory bucketname uuid now) = Returns (Inr (failure (Error err))))
 \<and> (Open_err file = None \<and>
    Read file = Inr data \<and>
    GetAwsClient f k = Inr () \<and>
    fst (s3_PutObject k w (aws_bucket f bucketname) (upload_key subdirectory uuid file) data (ContentTypeHeader file) now) = Some err \<longrightarrow>
     fst (AwsUpload f k w file subdirectory bucketname uuid now) = Returns (Inr (failure (Error err))))
 \<and> (GetAwsClient f k = Inl err \<longrightarrow>
     fst (AwsDelete f k w fileID bucketname) = Inr (failure (Error err)))
 \<and> (GetAwsClient f k = Inr () \<and>
    fst (s3_DeleteObject k w (aws_bucket f bucketname) fileID) = Some err \<longrightarrow>
     fst (AwsDelete f k w fileID bucketname) = Inr (failure (Error err)))
 \<and> (GetAwsClient f k = Inl err \<longrightarrow>
     fst (AwsGetFileById f k w fileID bucketname now) = Inr (failure (Error err)))
 \<and> (GetAwsClient f k = Inr () \<and>
    s3_GetObject k w (aws_bucket f bucketname) fileID = Inl err \<longrightarrow>
     fst (AwsGetFileById f k w fileID bucketname now) = Inr (failure (Error err)))
 \<and> (GetAwsClient f k = Inr () \<and>
    s3_GetObject k w (aws_bucket f bucketname) fileID = Inr obj \<and>
    io_ReadAll k (Content obj) = Inl err \<longrightarrow>
     fst (AwsGetFileById f k w fileID bucketname now) = Inr (failure (Error err)))
 \<and> (GetAwsClient f k = Inl err \<longrightarrow>
     fst (AwsDownloadFile f k w fileID bucketname saveAsPath) = Inr (failure (Error err)))
 \<and> (GetAwsClient f k = Inr () \<and>
    fst (os_Create k w saveAsPath) = Some err \<longrightarrow>
     fst (AwsDownloadFile f k w fileID bucketname saveAsPath) = Inr (failure (Error err)))
 \<and> (GetAwsClient f k = Inr () \<and>
    os_Create k w saveAsPath = (None, w') \<and>
    s3_GetObject k w' (aws_bucket f bucketname) fileID = Inl err \<longrightarrow>
     fst (AwsDownloadFile f k w fileID bucketname saveAsPath) = Inr (failure (Error err)))
 \<and> (GetAwsClient f k = Inr () \<and>
    os_Create k w saveAsPath = (None, w') \<and>
    s3_GetObject k w' (aws_bucket f bucketname) fileID = Inr obj \<and>
    fst (io_Copy k w' saveAsPath (Content obj)) = Some err \<longrightarrow>
     fst (AwsDownloadFile f k w fileID bucketname saveAsPath) = Inr (failure (Error err)))
 \<and> (GetAwsClient f k = Inl err \<longrightarrow>
     fst (AwsGetTemporaryPublicLink f k w fileID expiry bucketname now now') = Inr (failure (Error err)))
 \<and> (GetAwsClient f k = Inr () \<and>
    Presign k (aws_bucket f bucketname) fileID (Time_Sub (link_expiry expiry now) now') = Inl err \<longrightarrow>
     fst (AwsGetTemporaryPublicLink f k w fileID expiry bucketname now now') = Inr (failure (Error err)))
 \<and> (Open_err file = None \<and>
    Read file = Inr data \<and>
    GetGcsClient f k projectID = Inl err \<longrightarrow>
     fst (GcsUpload f k w file subdirectory bucketname projectID uuid now) = Returns (Inr (failure (Error err))))
 \<and> (Open_err file = None \<and>
    Read file = Inr data \<and>
    GetGcsClient f k projectID = Inr () \<and>
    gcs_BucketAttrs k w (gcs_bucket f bucketname) = Some err \<longrightarrow>
     fst (GcsUpload f k w file subdirectory bucketname projectID uuid now) = Returns (Inr (failure (''Bucket not found''))))
 \<and> (Open_err file = None \<and>
    Read file = Inr data \<and>
    GetGcsClient f k projectID = Inr () \<and>
    gcs_BucketAttrs k w (gcs_bucket f bucketname) = None \<and>
    gcs_Write k data = Some err \<longrightarrow>
     fst (GcsUpload f k w file subdirectory bucketname projectID uuid now) = Returns (Inr (failure (Error err))))
 \<and> (Open_err file = None \<and>
    Read file = Inr data \<and>
    GetGcsClient f k projectID = Inr () \<and>
    gcs_BucketAttrs k w (gcs_bucket f bucketname) = None \<and>
    gcs_Write k data = None \<and>
    fst (gcs_Close k w (gcs_bucket f bucketname) (upload_key subdirectory uuid file) data (ContentTypeHeader file) now) = Some err \<longrightarrow>
     fst (GcsUpload f k w file subdirectory bucketname projectID uuid now) = Returns (Inr (failure (Error err))))
 \<and> (Open_err file = None \<and>
    Read file = Inr data \<and>
    GetGcsClient f k projectID = Inr () \<and>
    gcs_BucketAttrs k w (gcs_bucket f bucketname) = None \<and>
    gcs_Write k data = None \<and>
    gcs_Close k w (gcs_bucket f bucketname) (upload_key subdirectory uuid file) data (ContentTypeHeader file) now = (None, w') \<and>
    gcs_ObjectAttrs k w' (gcs_bucket f bucketname) (upload_key subdirectory uuid file) = Inl err \<longrightarrow>
     fst (GcsUpload f k w file subdirectory bucketname projectID uuid now) = Returns (Inr (failure (Error err))))
 \<and> (GetGcsClient f k projectID = Inl err \<longrightarrow>
     fst (GcsDelete f k w fileID bucketname projectID) = Inr (failure (Error err)))
 \<and> (GetGcsClient f k projectID = Inr () \<and>
    gcs_BucketAttrs k w (gcs_bucket f bucketname) = Some err \<longrightarrow>
     fst (GcsDelete f k w fileID bucketname projectID) = Inr (failure (''Bucket not found'')))
 \<and> (GetGcsClient f k projectID = Inr () \<and>
    gcs_BucketAttrs k w (gcs_bucket f bucketname) = None \<and>
    gcs_ObjectAttrs k w (gcs_bucket f bucketname) fileID = Inl err \<longrightarrow>
     fst (GcsDelete f k w fileID bucketname projectID) = Inr (failure (''Object '' @ fileID @ '' not found'')))
 \<and> (GetGcsClient f k projectID = Inr () \<and>
    gcs_BucketAttrs k w (gcs_bucket f bucketname) = None \<and>
    gcs_ObjectAttrs k w (gcs_bucket f bucketname) fileID = Inr attrs \<and>
    fst (gcs_Delete k w (gcs_bucket f bucketname) fileID) = Some err \<longrightarrow>
     fst (GcsDelete f k w fileID bucketname projectID) = Inr (failure (Error err)))
 \<and> (GetGcsClient f k projectID = Inl err \<longrightarrow>
     fst (GcsGetFileById f k w fileID bucketname projectID) = Inr (failure (Error err)))
 \<and> (GetGcsClient f k projectID = Inr () \<and>
    gcs_BucketAttrs k w (gcs_bucket f bucketname) = Some err \<longrightarrow>
     fst (GcsGetFileById f k w fileID bucketname projectID) = Inr (failure (''Bucket not found'')))
 \<and> (GetGcsClient f k projectID = Inr () \<and>
    gcs_BucketAttrs k w (gcs_bucket f bucketname) = None \<and>
    gcs_ObjectAttrs k w (gcs_bucket f bucketname) fileID = Inl err \<longrightarrow>
     fst (GcsGetFileById f k w fileID bucketname projectID) = Inr (failure (''Object '' @ fileID @ '' not found'')))
 \<and> (GetGcsClient f k projectID = Inr () \<and>
    gcs_BucketAttrs k w (gcs_bucket f bucketname) = None \<and>
    gcs_ObjectAttrs k w (gcs_bucket f bucketname) fileID = Inr attrs \<and>
    gcs_NewReader k w (gcs_bucket f bucketname) fileID = Inl err \<longrightarrow>
     fst (GcsGetFileById f k w fileID bucketname projectID) = Inr (failure (Error err)))
 \<and> (GetGcsClient f k projectID = Inr () \<and>
    gcs_BucketAttrs k w (gcs_bucket f bucketname) = None \<and>
    gcs_ObjectAttrs k w (gcs_bucket f bucketname) fileID = Inr attrs \<and>
    gcs_NewReader k w (gcs_bucket f bucketname) fileID = Inr reader \<and>
    io_ReadAll k reader = Inl err \<longrightarrow>
     fst (GcsGetFileById f k w fileID bucketname projectID) = Inr (failure (Error err)))
 \<and> (GetGcsClient f k projectID = Inl err \<longrightarrow>
     fst (GcsDownloadFile f k w fileID saveAsPath bucketname projectID) = Inr (failure (Error err)))
 \<and> (GetGcsClient f k projectID = Inr () \<and>
    gcs_BucketAttrs k w (gcs_bucket f bucketname) = Some err \<longrightarrow>
     fst (GcsDownloadFile f k w fileID saveAsPath bucketname projectID) = Inr (failure (''Bucket not found'')))
 \<and> (GetGcsClient f k projectID = Inr () \<and>
    gcs_BucketAttrs k w (gcs_bucket f bucketname) = None \<and>
    gcs_ObjectAttrs k w (gcs_bucket f bucketname) fileID = Inl err \<longrightarrow>
     fst (GcsDownloadFile f k w fileID saveAsPath bucketname projectID) = Inr (failure (''Object '' @ fileID @ '' not found'')))
 \<and> (GetGcsClient f k projectID = Inr () \<and>
    gcs_BucketAttrs k w (gcs_bucket f bucketname) = None \<and>
    gcs_ObjectAttrs k w (gcs_bucket f bucketname) fileID = Inr attrs \<and>
    fst (os_Create k w saveAsPath) = Some err \<longrightarrow>
     fst (GcsDownloadFile f k w fileID saveAsPath bucketname projectID) = Inr (failure (Error err)))
 \<and> (GetGcsClient f k projectID = Inr () \<and>
    gcs_BucketAttrs k w (gcs_bucket f bucketname) = None \<and>
    gcs_ObjectAttrs k w (gcs_bucket f bucketname) fileID = Inr attrs \<and>
    os_Create k w saveAsPath = (None, w') \<and>
    gcs_NewReader k w' (gcs_bucket f bucketname) fileID = Inl err \<longrightarrow>
     fst (GcsDownloadFile f k w fileID saveAsPath bucketname projectID) = Inr (failure (Error err)))
 \<and> (GetGcsClient f k projectID = Inr () \<and>
    gcs_BucketAttrs k w (gcs_bucket f bucketname) = None \<and>
    gcs_ObjectAttrs k w (gcs_bucket f bucketname) fileID = Inr attrs \<and>
    os_Create k w saveAsPath = (None, w') \<and>
    gcs_NewReader k w' (gcs_bucket f bucketname) fileID = Inr reader \<and>
    fst (io_Copy k w' saveAsPath reader) = Some err \<longrightarrow>
     fst (GcsDownloadFile f k w fileID saveAsPath bucketname projectID) = Inr (failure (Error err)))
 \<and> (GetGcsClient f k projectID = Inl err \<longrightarrow>
     fst (GcsGetFileByIdAsString f k w fileID bucketname projectID) = Inr (failure (Error err)))
 \<and> (GetGcsClient f k projectID = Inr () \<and>
    gcs_BucketAttrs k w (gcs_bucket f bucketname) = Some err \<longrightarrow>
     fst (GcsGetFileByIdAsString f k w fileID bucketname projectID) = Inr (failure (''Bucket not found'')))
 \<and> (GetGcsClient f k projectID = Inr () \<and>
    gcs_BucketAttrs k w (gcs_bucket f bucketname) = None \<and>
    gcs_ObjectAttrs k w (gcs_bucket f bucketname) fileID = Inl err \<longrightarrow>
     fst (GcsGetFileByIdAsString f k w fileID bucketname projectID) = Inr (failure (''Object '' @ fileID @ '' not found'')))
 \<and> (GetGcsClient f k projectID = Inr () \<and>
    gcs_BucketAttrs k w (gcs_bucket f bucketname) = None \<and>
    gcs_ObjectAttrs k w (gcs_bucket f bucketname) fileID = Inr attrs \<and>
    gcs_NewReader k w (gcs_bucket f bucketname) fileID = Inl err \<longrightarrow>
     fst (GcsGetFileByIdAsString f k w fileID bucketname projectID) = Inr (failure (Error err)))
 \<and> (GetGcsClient f k projectID = Inr () \<and>
    gcs_BucketAttrs k w (gcs_bucket f bucketname) = None \<and>
    gcs_ObjectAttrs k w (gcs_bucket f bucketname) fileID = Inr attrs \<and>
    gcs_NewReader k w (gcs_bucket f bucketname) fileID = Inr reader \<and>
    io_ReadAll k reader = Inl err \<longrightarrow>
     fst (GcsGetFileByIdAsString f k w fileID bucketname projectID) = Inr (failure (Error err)))
 \<and> (GetGcsClient f k projectID = Inl err \<longrightarrow>
     fst (GcsGetFileByIdAsStream f k w fileID bucketname projectID) = Inr (failure (Error err)))
 \<and> (GetGcsClient f k projectID = Inr () \<and>
    gcs_BucketAttrs k w (gcs_bucket f bucketname) = Some err \<longrightarrow>
     fst (GcsGetFileByIdAsStream f k w fileID bucketname projectID) = Inr (failure (''Bucket not found'')))
 \<and> (GetGcsClient f k projectID = Inr () \<and>
    gcs_BucketAttrs k w (gcs_bucket f bucketname) = None \<and>
    gcs_ObjectAttrs k w (gcs_bucket f bucketname) fileID = Inl err \<longrightarrow>
     fst (GcsGetFileByIdAsStream f k w fileID bucketname projectID) = Inr (failure (''Object '' @ fileID @ '' not found'')))
 \<and> (GetGcsClient f k projectID = Inr () \<and>
    gcs_BucketAttrs k w (gcs_bucket f bucketname) = None \<and>
    gcs_ObjectAttrs k w (gcs_bucket f bucketname) fileID = Inr attrs \<and>
    gcs_NewReader k w (gcs_bucket f bucketname) fileID = Inl err \<longrightarrow>
     fst (GcsGetFileByIdAsStream f k w fileID bucketname projectID) = Inr (failure (Error err)))
 \<and> (GetGcsClient f k projectID = Inl err \<longrightarrow>
     fst (GcsGetTemporaryPublicLink f k w fileID expiry bucketname projectID now) = Inr (failure (Error err)))
 \<and> (GetGcsClient f k projectID = Inr () \<and>
    gcs_BucketAttrs k w (gcs_bucket f bucketname) = Some err \<longrightarrow>
     fst (GcsGetTemporaryPublicLink f k w fileID expiry bucketname projectID now) = Inr (failure (''Bucket not found'')))
 \<and> (GetGcsClient f k projectID = Inr () \<and>
    gcs_BucketAttrs k w (gcs_bucket f bucketname) = None \<and>
    gcs_ObjectAttrs k w (gcs_bucket f bucketname) fileID = Inl err \<longrightarrow>
     fst (GcsGetTemporaryPublicLink f k w fileID expiry bucketname projectID now) = Inr (failure (''Object '' @ fileID @ '' not found'')))
 \<and> (GetGcsClient f k projectID = Inr () \<and>
    gcs_BucketAttrs k w (gcs_bucket f bucketname) = None \<and>
    gcs_ObjectAttrs k w (gcs_bucket f bucketname) fileID = Inr attrs \<and>
    os_ReadFile k w (GCSKeyPath (config f)) = Inl err \<longrightarrow>
     fst (GcsGetTemporaryPublicLink f k w fileID expiry bucketname projectID now) = Inr (failure (''Failed to read service account key: '' @ Error err)))
 \<and> (GetGcsClient f k projectID = Inr () \<and>
    gcs_BucketAttrs k w (gcs_bucket f bucketname) = None \<and>
    gcs_ObjectAttrs k w (gcs_bucket f bucketname) fileID = Inr attrs \<and>
    os_ReadFile k w (GCSKeyPath (config f)) = Inr jsonKey \<and>
    KeyUnmarshal k jsonKey = Inl err \<longrightarrow>
     fst (GcsGetTemporaryPublicLink f k w fileID expiry bucketname projectID now) = Inr (failure (''Failed to parse service account key: '' @ Error err)))
 \<and> (GetGcsClient f k projectID = Inr () \<and>
    gcs_BucketAttrs k w (gcs_bucket f bucketname) = None \<and>
    gcs_ObjectAttrs k w (gcs_bucket f bucketname) fileID = Inr attrs \<and>
    os_ReadFile k w (GCSKeyPath (config f)) = Inr jsonKey \<and>
    KeyUnmarshal k jsonKey = Inr (email, pk) \<and>
    SignedURL k (gcs_bucket f bucketname) fileID (link_expiry expiry now) email pk = Inl err \<longrightarrow>
     fst (GcsGetTemporaryPublicLink f k w fileID expiry bucketname projectID now) = Inr (failure (Error err)))
 \<and> Status (failure msg) = ''ERR''
 \<and> Message (failure msg) = msg"
  by (intro conjI)
     (rule AwsUpload_failures
           AwsDelete_failures
           AwsGetFileById_failures
           AwsDownloadFile_failures
           AwsGetTemporaryPublicLink_failures
           GcsUpload_failures
           GcsDelete_failures
           GcsGetFileById_failures
           GcsDownloadFile_failures
           GcsGetFileByIdAsString_failures
           GcsGetFileByIdAsStream_failures
           GcsGetTemporaryPublicLink_failures
       | simp add: failure_def StatusError_def FileResponse_zero_def)+

subsection \<open>File names of uploads\<close>

lemma Base_nonempty: "filepath_Base path \<noteq> []"
  by (simp add: filepath_Base_def Let_def)

lemma Base_no_slash: "filepath_Base path = ''/'' \<or> CHR ''/'' \<notin> set (filepath_Base path)"
proof -
  have "CHR ''/'' \<notin> set (takeWhile (\<lambda>c. c \<noteq> CHR ''/'') xs)" for xs
    by (auto dest: set_takeWhileD)
  then show ?thesis
    by (simp add: filepath_Base_def Let_def)
qed

lemma ext_scan_no_dot: "CHR ''.'' \<notin> set cs \<Longrightarrow> ext_scan cs seen = []"
  by (induction cs seen rule: ext_scan.induct) auto

lemma ext_scan_dot:
  "CHR ''/'' \<notin> set cs \<Longrightarrow> CHR ''.'' \<in> set cs \<Longrightarrow>
   \<exists>pre post. cs = pre @ CHR ''.'' # post \<and> ext_scan cs seen = CHR ''.'' # rev pre @ seen"
proof (induction cs seen rule: ext_scan.induct)
  case (1 seen)
  then show ?case by simp
next
  case (2 c cs seen)
  show ?case
  proof (cases "c = CHR ''.''")
    case True
    then have "c # cs = [] @ CHR ''.'' # cs \<and> ext_scan (c # cs) seen = CHR ''.'' # rev [] @ seen"
      by simp
    then show ?thesis by blast
  next
    case False
    then have c: "c \<noteq> CHR ''/''" "CHR ''/'' \<notin> set cs" "CHR ''.'' \<in> set cs"
      using "2.prems" by auto
    then obtain pre post where
      "cs = pre @ CHR ''.'' # post" "ext_scan cs (c # seen) = CHR ''.'' # rev pre @ c # seen"
      using "2.IH" False by blast
    then have "c # cs = (c # pre) @ CHR ''.'' # post
               \<and> ext_scan (c # cs) seen = CHR ''.'' # rev (c # pre) @ seen"
      using False c by simp
    then show ?thesis by blast
  qed
qed

lemma extension_no_dot: "CHR ''.'' \<notin> set name \<Longrightarrow> extension_of name = []"
  by (simp add: extension_of_def filepath_Ext_def ext_scan_no_dot)

lemma name_no_dot:
  assumes "CHR ''.'' \<notin> set name" "name \<noteq> []"
  shows "slice_to name (int (length name) - int (length (extension_of name)) - 1) = Some (butlast name)"
proof -
  have "nat (int (length name) - 1) = length name - 1"
    by simp
  then show ?thesis
    using assms by (simp add: extension_no_dot slice_to_def butlast_conv_take)
qed

lemma name_dot:
  assumes "CHR ''/'' \<notin> set name" "CHR ''.'' \<in> set name"
  shows "\<exists>stem. slice_to name (int (length name) - int (length (extension_of name)) - 1) = Some stem
               \<and> stem @ ''.'' @ extension_of name = name"
proof -
  obtain pre post where p: "rev name = pre @ CHR ''.'' # post"
      "ext_scan (rev name) [] = CHR ''.'' # rev pre @ []"
    using ext_scan_dot [of "rev name" "[]"] assms by auto
  then have n: "name = rev post @ CHR ''.'' # rev pre"
    by (metis rev_rev_ident rev_append rev.simps(2) append_Cons append_Nil append_assoc)
  have e: "extension_of name = rev pre"
    using p(2) by (simp add: extension_of_def filepath_Ext_def)
  have "slice_to name (int (length name) - int (length (extension_of name)) - 1) = Some (rev post)"
    unfolding e by (subst n, subst n) (simp add: slice_to_def)
  then show ?thesis
    using n e by simp
qed

lemma Base_slice:
  "\<exists>stem. slice_to (filepath_Base path)
             (int (length (filepath_Base path)) - int (length (extension_of (filepath_Base path))) - 1)
           = Some stem"
proof (cases "CHR ''.'' \<in> set (filepath_Base path)")
  case True
  then have "CHR ''/'' \<notin> set (filepath_Base path)"
    using Base_no_slash [of path] by auto
  then show ?thesis
    using name_dot True by blast
next
  case False
  then show ?thesis
    using name_no_dot Base_nonempty by blast
qed

lemma AwsUpload_stored:
  assumes "Open_err file = None" "Read file = Inr data" "GetAwsClient f k = Inr ()"
    and "fst (s3_PutObject k w (aws_bucket f bucketname) (upload_key subdirectory uuid file) data
               (ContentTypeHeader file) now) = None"
    and "slice_to (filepath_Base (Filename file))
           (int (length (filepath_Base (Filename file)))
              - int (length (extension_of (filepath_Base (Filename file)))) - 1) = Some stem"
  shows "\<exists>info. info_of (fst (AwsUpload f k w file subdirectory bucketname uuid now)) = Some info
           \<and> FileName info = stem
           \<and> FileExt info = extension_of (filepath_Base (Filename file))"
    and "id_of (fst (AwsUpload f k w file subdirectory bucketname uuid now))
           = Some (upload_key subdirectory uuid file)"
proof -
  obtain w' where put:
    "s3_PutObject k w (aws_bucket f bucketname) (upload_key subdirectory uuid file) data
       (ContentTypeHeader file) now = (None, w')"
    using assms(4) by (metis prod.collapse)
  show "\<exists>info. info_of (fst (AwsUpload f k w file subdirectory bucketname uuid now)) = Some info
           \<and> FileName info = stem
           \<and> FileExt info = extension_of (filepath_Base (Filename file))"
    and "id_of (fst (AwsUpload f k w file subdirectory bucketname uuid now))
           = Some (upload_key subdirectory uuid file)"
    using assms(1,2,3,5) put
    by (simp_all only: AwsUpload_def Let_def aws_bucket_def [symmetric] upload_key_alt)
       (simp_all add: info_of_def id_of_def)
qed

lemma GcsUpload_stored:
  assumes "Open_err file = None" "Read file = Inr data" "GetGcsClient f k projectID = Inr ()"
    and "gcs_BucketAttrs k w (gcs_bucket f bucketname) = None" "gcs_Write k data = None"
    and "gcs_Close k w (gcs_bucket f bucketname) (upload_key subdirectory uuid file) data
           (ContentTypeHeader file) now = (None, w')"
    and "gcs_ObjectAttrs k w' (gcs_bucket f bucketname) (upload_key subdirectory uuid file) = Inr attrs"
    and "slice_to (filepath_Base (Filename file))
           (int (length (filepath_Base (Filename file)))
              - int (length (extension_of (filepath_Base (Filename file)))) - 1) = Some stem"
  shows "\<exists>info. info_of (fst (GcsUpload f k w file subdirectory bucketname projectID uuid now)) = Some info
           \<and> FileName info = stem
           \<and> FileExt info = extension_of (filepath_Base (Filename file))"
    and "id_of (fst (GcsUpload f k w file subdirectory bucketname projectID uuid now))
           = Some (upload_key subdirectory uuid file)"
  using assms
  by (simp_all only: GcsUpload_def Let_def gcs_bucket_def [symmetric] upload_key_alt)
     (simp_all add: info_of_def id_of_def)

lemma upload_key_no_dot:
  "CHR ''.'' \<notin> set (filepath_Base (Filename file)) \<Longrightarrow>
   upload_key subdirectory uuid file
     = (if subdirectory \<noteq> [] then subdirectory @ ''/'' else []) @ uuid @ ''.''"
  by (simp add: upload_key_def extension_no_dot)

lemma butlast_differs: "name \<noteq> [] \<Longrightarrow> butlast name \<noteq> name"
  by (metis length_butlast diff_less length_greater_0_conv less_numeral_extra(1) less_irrefl)

text \<open>The slice that computes \<^verbatim>\<open>FileName\<close> is always within bounds: the uploads do not panic.\<close>

lemma AwsUpload_never_panics:
  "fst (AwsUpload f k w file subdirectory bucketname uuid now) \<noteq> Panics"
proof -
  obtain stem where
    "slice_to (filepath_Base (Filename file))
       (int (length (filepath_Base (Filename file)))
          - int (length (extension_of (filepath_Base (Filename file)))) - 1) = Some stem"
    using Base_slice by blast
  then show ?thesis
    by (simp add: AwsUpload_def Let_def split: option.split sum.split prod.split)
qed

lemma GcsUpload_never_panics:
  "fst (GcsUpload f k w file subdirectory bucketname projectID uuid now) \<noteq> Panics"
proof -
  obtain stem where
    "slice_to (filepath_Base (Filename file))
       (int (length (filepath_Base (Filename file)))
          - int (length (extension_of (filepath_Base (Filename file)))) - 1) = Some stem"
    using Base_slice by blast
  then show ?thesis
    by (simp add: GcsUpload_def Let_def split: option.split sum.split prod.split)
qed

text \<open>
  C10. An upload by \<^verbatim>\<open>AwsUpload\<close> or \<^verbatim>\<open>GcsUpload\<close> that succeeds, for a file that was
  opened and read: when the base name of the file has no dot, the \<^verbatim>\<open>FileName\<close> of the
  returned \<^verbatim>\<open>FileInfo\<close> is the base name without its last character (so it is not the
  base name), the extension is empty, and the storage key is the prefix, the UUID and a
  bare final dot; when the base name has a dot, \<^verbatim>\<open>FileName\<close>, a dot and \<^verbatim>\<open>FileExt\<close>
  make up the base name again.
\<close>

theorem upload_name_without_dot:
  assumes "Open_err file = None" "Read file = Inr data"
  shows
   "(GetAwsClient f k = Inr () \<and>
     fst (s3_PutObject k w (aws_bucket f bucketname) (upload_key subdirectory uuid file) data
            (ContentTypeHeader file) now) = None \<and>
     CHR ''.'' \<notin> set (filepath_Base (Filename file)) \<longrightarrow>
       (\<exists>info. info_of (fst (AwsUpload f k w file subdirectory bucketname uuid now)) = Some info
          \<and> FileName info = butlast (filepath_Base (Filename file))
          \<and> FileName info \<noteq> filepath_Base (Filename file)
          \<and> FileExt info = [])
       \<and> id_of (fst (AwsUpload f k w file subdirectory bucketname uuid now))
           = Some ((if subdirectory \<noteq> [] then subdirectory @ ''/'' else []) @ uuid @ ''.''))
  \<and> (GetAwsClient f k = Inr () \<and>
     fst (s3_PutObject k w (aws_bucket f bucketname) (upload_key subdirectory uuid file) data
            (ContentTypeHeader file) now) = None \<and>
     CHR ''.'' \<in> set (filepath_Base (Filename file)) \<longrightarrow>
       (\<exists>info. info_of (fst (AwsUpload f k w file subdirectory bucketname uuid now)) = Some info
          \<and> FileName info @ ''.'' @ FileExt info = filepath_Base (Filename file)))
  \<and> (GetGcsClient f k projectID = Inr () \<and>
     gcs_BucketAttrs k w (gcs_bucket f bucketname) = None \<and> gcs_Write k data = None \<and>
     gcs_Close k w (gcs_bucket f bucketname) (upload_key subdirectory uuid file) data
       (ContentTypeHeader file) now = (None, w') \<and>
     gcs_ObjectAttrs k w' (gcs_bucket f bucketname) (upload_key subdirectory uuid file) = Inr attrs \<and>
     CHR ''.'' \<notin> set (filepath_Base (Filename file)) \<longrightarrow>
       (\<exists>info. info_of (fst (GcsUpload f k w file subdirectory bucketname projectID uuid now)) = Some info
          \<and> FileName info = butlast (filepath_Base (Filename file))
          \<and> FileName info \<noteq> filepath_Base (Filename file)
          \<and> FileExt info = [])
       \<and> id_of (fst (GcsUpload f k w file subdirectory bucketname projectID uuid now))
           = Some ((if subdirectory \<noteq> [] then subdirectory @ ''/'' else []) @ uuid @ ''.''))
  \<and> (GetGcsClient f k projectID = Inr () \<and>
     gcs_BucketAttrs k w (gcs_bucket f bucketname) = None \<and> gcs_Write k data = None \<and>
     gcs_Close k w (gcs_bucket f bucketname) (upload_key subdirectory uuid file) data
       (ContentTypeHeader file) now = (None, w') \<and>
     gcs_ObjectAttrs k w' (gcs_bucket f bucketname) (upload_key subdirectory uuid file) = Inr attrs \<and>
     CHR ''.'' \<in> set (filepath_Base (Filename file)) \<longrightarrow>
       (\<exists>info. info_of (fst (GcsUpload f k w file subdirectory bucketname projectID uuid now)) = Some info
          \<and> FileName info @ ''.'' @ FileExt info = filepath_Base (Filename file)))"
proof -
  let ?base = "filepath_Base (Filename file)"
  have nodot: "slice_to ?base (int (length ?base) - int (length (extension_of ?base)) - 1)
                 = Some (butlast ?base)"
    if "CHR ''.'' \<notin> set ?base"
    using that name_no_dot Base_nonempty by blast
  have dot: "\<exists>stem. slice_to ?base (int (length ?base) - int (length (extension_of ?base)) - 1)
                 = Some stem \<and> stem @ ''.'' @ extension_of ?base = ?base"
    if "CHR ''.'' \<in> set ?base"
    using that name_dot Base_no_slash [of "Filename file"] by auto
  have differs: "butlast ?base \<noteq> ?base"
    using butlast_differs Base_nonempty by blast
  show ?thesis
  proof (intro conjI impI; elim conjE)
    assume a: "GetAwsClient f k = Inr ()"
      "fst (s3_PutObject k w (aws_bucket f bucketname) (upload_key subdirectory uuid file) data
              (ContentTypeHeader file) now) = None"
      and d: "CHR ''.'' \<notin> set ?base"
    show "\<exists>info. info_of (fst (AwsUpload f k w file subdirectory bucketname uuid now)) = Some info
          \<and> FileName info = butlast ?base \<and> FileName info \<noteq> ?base \<and> FileExt info = []"
      using AwsUpload_stored(1) [OF assms a nodot [OF d]] differs extension_no_dot [OF d] by auto
    show "id_of (fst (AwsUpload f k w file subdirectory bucketname uuid now))
           = Some ((if subdirectory \<noteq> [] then subdirectory @ ''/'' else []) @ uuid @ ''.'')"
      using AwsUpload_stored(2) [OF assms a nodot [OF d]] upload_key_no_dot [OF d] by simp
  next
    assume a: "GetAwsClient f k = Inr ()"
      "fst (s3_PutObject k w (aws_bucket f bucketname) (upload_key subdirectory uuid file) data
              (ContentTypeHeader file) now) = None"
      and d: "CHR ''.'' \<in> set ?base"
    obtain stem where s: "slice_to ?base (int (length ?base) - int (length (extension_of ?base)) - 1)
                 = Some stem" "stem @ ''.'' @ extension_of ?base = ?base"
      using dot [OF d] by blast
    show "\<exists>info. info_of (fst (AwsUpload f k w file subdirectory bucketname uuid now)) = Some info
          \<and> FileName info @ ''.'' @ FileExt info = ?base"
      using AwsUpload_stored(1) [OF assms a s(1)] s(2) by auto
  next
    assume a: "GetGcsClient f k projectID = Inr ()"
      "gcs_BucketAttrs k w (gcs_bucket f bucketname) = None" "gcs_Write k data = None"
      "gcs_Close k w (gcs_bucket f bucketname) (upload_key subdirectory uuid file) data
         (ContentTypeHeader file) now = (None, w')"
      "gcs_ObjectAttrs k w' (gcs_bucket f bucketname) (upload_key subdirectory uuid file) = Inr attrs"
      and d: "CHR ''.'' \<notin> set ?base"
    show "\<exists>info. info_of (fst (GcsUpload f k w file subdirectory bucketname projectID uuid now)) = Some info
          \<and> FileName info = butlast ?base \<and> FileName info \<noteq> ?base \<and> FileExt info = []"
      using GcsUpload_stored(1) [OF assms a nodot [OF d]] differs extension_no_dot [OF d] by auto
    show "id_of (fst (GcsUpload f k w file subdirectory bucketname projectID uuid now))
           = Some ((if subdirectory \<noteq> [] then subdirectory @ ''/'' else []) @ uuid @ ''.'')"
      using GcsUpload_stored(2) [OF assms a nodot [OF d]] upload_key_no_dot [OF d] by simp
  next
    assume a: "GetGcsClient f k projectID = Inr ()"
      "gcs_BucketAttrs k w (gcs_bucket f bucketname) = None" "gcs_Write k data = None"
      "gcs_Close k w (gcs_bucket f bucketname) (upload_key subdirectory uuid file) data
         (ContentTypeHeader file) now = (None, w')"
      "gcs_ObjectAttrs k w' (gcs_bucket f bucketname) (upload_key subdirectory uuid file) = Inr attrs"
      and d: "CHR ''.'' \<in> set ?base"
    obtain stem where s: "slice_to ?base (int (length ?base) - int (length (extension_of ?base)) - 1)
                 = Some stem" "stem @ ''.'' @ extension_of ?base = ?base"
      using dot [OF d] by blast
    show "\<exists>info. info_of (fst (GcsUpload f k w file subdirectory bucketname projectID uuid now)) = Some info
          \<and> FileName info @ ''.'' @ FileExt info = ?base"
      using GcsUpload_stored(1) [OF assms a s(1)] s(2) by auto
  qed
qed

subsection \<open>Downloads to the local disk\<close>

text \<open>
  C8, as the code has it. In \<^verbatim>\<open>AwsDownloadFile\<close> and \<^verbatim>\<open>GcsDownloadFile\<close>, once
  \<^verbatim>\<open>os.Create\<close> has created the file at the path the caller gave: when the reader of
  the object cannot be obtained, or when the copy into the file fails (after any number
  of bytes), the operation calls \<^verbatim>\<open>os.Remove\<close> on that path before it returns, and the
  world it returns is the one that call leaves; when the removal succeeds, the path is
  not on the disk afterward.
\<close>

theorem download_cleanup:
  "(GetAwsClient f k = Inr () \<and> os_Create k w saveAsPath = (None, w') \<and>
    s3_GetObject k w' (aws_bucket f bucketname) fileID = Inl err \<longrightarrow>
      snd (AwsDownloadFile f k w fileID bucketname saveAsPath) = snd (os_Remove k w' saveAsPath) \<and>
      (fst (os_Remove k w' saveAsPath) = None \<longrightarrow>
         disk (snd (AwsDownloadFile f k w fileID bucketname saveAsPath)) saveAsPath = None))
 \<and> (GetAwsClient f k = Inr () \<and> os_Create k w saveAsPath = (None, w') \<and>
    s3_GetObject k w' (aws_bucket f bucketname) fileID = Inr obj \<and>
    io_Copy k w' saveAsPath (Content obj) = (Some err, w'') \<longrightarrow>
      snd (AwsDownloadFile f k w fileID bucketname saveAsPath) = snd (os_Remove k w'' saveAsPath) \<and>
      (fst (os_Remove k w'' saveAsPath) = None \<longrightarrow>
         disk (snd (AwsDownloadFile f k w fileID bucketname saveAsPath)) saveAsPath = None))
 \<and> (GetGcsClient f k projectID = Inr () \<and>
    gcs_BucketAttrs k w (gcs_bucket f bucketname) = None \<and>
    gcs_ObjectAttrs k w (gcs_bucket f bucketname) fileID = Inr attrs \<and>
    os_Create k w saveAsPath = (None, w') \<and>
    gcs_NewReader k w' (gcs_bucket f bucketname) fileID = Inl err \<longrightarrow>
      snd (GcsDownloadFile f k w fileID saveAsPath bucketname projectID)
        = snd (os_Remove k w' saveAsPath) \<and>
      (fst (os_Remove k w' saveAsPath) = None \<longrightarrow>
         disk (snd (GcsDownloadFile f k w fileID saveAsPath bucketname projectID)) saveAsPath = None))
 \<and> (GetGcsClient f k projectID = Inr () \<and>
    gcs_BucketAttrs k w (gcs_bucket f bucketname) = None \<and>
    gcs_ObjectAttrs k w (gcs_bucket f bucketname) fileID = Inr attrs \<and>
    os_Create k w saveAsPath = (None, w') \<and>
    gcs_NewReader k w' (gcs_bucket f bucketname) fileID = Inr reader \<and>
    io_Copy k w' saveAsPath reader = (Some err, w'') \<longrightarrow>
      snd (GcsDownloadFile f k w fileID saveAsPath bucketname projectID)
        = snd (os_Remove k w'' saveAsPath) \<and>
      (fst (os_Remove k w'' saveAsPath) = None \<longrightarrow>
         disk (snd (GcsDownloadFile f k w fileID saveAsPath bucketname projectID)) saveAsPath = None))"
proof -
  have removed: "fst (os_Remove k v path) = None \<longrightarrow> disk (snd (os_Remove k v path)) path = None"
    for v path
    by (simp add: os_Remove_def split: option.split)
  show ?thesis
    using removed
    by (simp_all only: AwsDownloadFile_def GcsDownloadFile_def Let_def aws_bucket_def [symmetric]
          gcs_bucket_def [symmetric])
       simp
qed

subsection \<open>Concrete runs on the object stores\<close>

lemma example_config_of: "config (example_manager good) = example_config"
  by (simp add: example_manager_def NewFileStorageManager_def)

lemmas example_store_defs =
  example_sdk_def example_sdk_no_client_def example_sdk_copy_fails_def example_sdk_no_reader_def
  example_world_def example_world_old_file_def example_object_def example_file_def
  example_config_def example_config_of
  GetAwsClient_def GetGcsClient_def s3_PutObject_def s3_DeleteObject_def s3_GetObject_def
  gcs_BucketAttrs_def gcs_ObjectAttrs_def gcs_Write_def gcs_Close_def gcs_Delete_def
  gcs_NewReader_def io_ReadAll_def os_Create_def io_Copy_def os_Remove_def os_ReadFile_def
  aws_bucket_def gcs_bucket_def upload_key_def link_expiry_def


theorem download_cleanup_witness:
  "disk example_world_old_file ''/tmp/a'' = Some ''old''
   \<and> disk (snd (os_Create example_sdk_copy_fails example_world_old_file ''/tmp/a'')) ''/tmp/a'' = Some []
   \<and> disk (snd (io_Copy example_sdk_copy_fails
                  (snd (os_Create example_sdk_copy_fails example_world_old_file ''/tmp/a''))
                  ''/tmp/a'' ''hello'')) ''/tmp/a'' = Some ''he''
   \<and> disk (snd (AwsDownloadFile (example_manager 9) example_sdk_copy_fails example_world_old_file
                  ''a.txt'' ''bucket'' ''/tmp/a'')) ''/tmp/a'' = None
   \<and> disk (snd (AwsDownloadFile (example_manager 9) example_sdk example_world_old_file
                  ''missing.txt'' ''bucket'' ''/tmp/a'')) ''/tmp/a'' = None
   \<and> disk (snd (GcsDownloadFile (example_manager 9) example_sdk_copy_fails example_world_old_file
                  ''a.txt'' ''/tmp/a'' ''bucket'' ''project'')) ''/tmp/a'' = None
   \<and> disk (snd (GcsDownloadFile (example_manager 9) example_sdk_no_reader example_world_old_file
                  ''a.txt'' ''/tmp/a'' ''bucket'' ''project'')) ''/tmp/a'' = None"
  using download_cleanup [where f = "example_manager 9" and k = example_sdk_copy_fails
          and w = example_world_old_file and saveAsPath = "''/tmp/a''" and fileID = "''a.txt''"
          and bucketname = "''bucket''" and projectID = "''project''"
          and w' = "example_world_old_file\<lparr>disk := [''/tmp/a'' \<mapsto> []]\<rparr>"
          and w'' = "example_world_old_file\<lparr>disk := [''/tmp/a'' \<mapsto> ''he'']\<rparr>"
          and obj = example_object and attrs = example_object and reader = "''hello''"
          and err = "Errorf ''disk full''"]
        download_cleanup [where f = "example_manager 9" and k = example_sdk
          and w = example_world_old_file and saveAsPath = "''/tmp/a''" and fileID = "''missing.txt''"
          and bucketname = "''bucket''" and projectID = "''project''"
          and w' = "example_world_old_file\<lparr>disk := [''/tmp/a'' \<mapsto> []]\<rparr>"
          and err = NoSuchKey]
        download_cleanup [where f = "example_manager 9" and k = example_sdk_no_reader
          and w = example_world_old_file and saveAsPath = "''/tmp/a''" and fileID = "''a.txt''"
          and bucketname = "''bucket''" and projectID = "''project''"
          and w' = "example_world_old_file\<lparr>disk := [''/tmp/a'' \<mapsto> []]\<rparr>"
          and attrs = example_object
          and err = "Errorf ''connection reset''"]
  by (simp add: example_store_defs)

text \<open>
  C8, as it was stated, that the path is gone whenever the copy fails after the
  file was created, does not hold: \<^verbatim>\<open>os.Create\<close> succeeds on the file at \<^verbatim>\<open>/tmp/a\<close>, the copy
  fails after two bytes (or the reader cannot be opened), \<^verbatim>\<open>os.Remove\<close> is refused, its
  error is dropped, and the operation returns its ERR response with the partial file
  still at the path.
\<close>

theorem download_cleanup_counterexample:
  "fst (os_Create example_sdk_remove_refused example_world_old_file ''/tmp/a'') = None
   \<and> fst (io_Copy example_sdk_remove_refused
            (snd (os_Create example_sdk_remove_refused example_world_old_file ''/tmp/a''))
            ''/tmp/a'' ''hello'') = Some (Errorf ''disk full'')
   \<and> fst (AwsDownloadFile (example_manager 9) example_sdk_remove_refused example_world_old_file
            ''a.txt'' ''bucket'' ''/tmp/a'') = Inr (failure ''disk full'')
   \<and> disk (snd (AwsDownloadFile (example_manager 9) example_sdk_remove_refused example_world_old_file
                  ''a.txt'' ''bucket'' ''/tmp/a'')) ''/tmp/a'' = Some ''he''
   \<and> fst (GcsDownloadFile (example_manager 9) example_sdk_remove_refused example_world_old_file
            ''a.txt'' ''/tmp/a'' ''bucket'' ''project'') = Inr (failure ''disk full'')
   \<and> disk (snd (GcsDownloadFile (example_manager 9) example_sdk_remove_refused example_world_old_file
                  ''a.txt'' ''/tmp/a'' ''bucket'' ''project'')) ''/tmp/a'' = Some ''he''
   \<and> fst (GcsDownloadFile (example_manager 9) example_sdk_no_reader_remove_refused
            example_world_old_file ''a.txt'' ''/tmp/a'' ''bucket'' ''project'')
       = Inr (failure ''connection reset'')
   \<and> disk (snd (GcsDownloadFile (example_manager 9) example_sdk_no_reader_remove_refused
                  example_world_old_file ''a.txt'' ''/tmp/a'' ''bucket'' ''project'')) ''/tmp/a''
       = Some []"
  by (simp add: AwsDownloadFile_def GcsDownloadFile_def Let_def example_sdk_remove_refused_def
        example_sdk_no_reader_remove_refused_def example_store_defs)

theorem sdk_failures_become_ERR_witness:
  "fst (AwsUpload (example_manager 9) example_sdk_no_client example_world (example_file ''a.txt'')
          [] [] ''u1'' 7) = Returns (Inr (failure ''no credentials''))
   \<and> fst (AwsDelete (example_manager 9) example_sdk_no_client example_world ''a.txt'' [])
       = Inr (failure ''no credentials'')
   \<and> fst (AwsGetFileById (example_manager 9) example_sdk_no_client example_world ''a.txt'' [] 7)
       = Inr (failure ''no credentials'')
   \<and> fst (AwsDownloadFile (example_manager 9) example_sdk_no_client example_world ''a.txt'' [] ''/tmp/a'')
       = Inr (failure ''no credentials'')
   \<and> fst (AwsGetTemporaryPublicLink (example_manager 9) example_sdk_no_client example_world
            ''a.txt'' 0 [] 7 8) = Inr (failure ''no credentials'')
   \<and> fst (GcsUpload (example_manager 9) example_sdk_no_client example_world (example_file ''a.txt'')
            [] [] [] ''u1'' 7) = Returns (Inr (failure ''no credentials''))
   \<and> fst (GcsDelete (example_manager 9) example_sdk_no_client example_world ''a.txt'' [] [])
       = Inr (failure ''no credentials'')
   \<and> fst (GcsGetFileById (example_manager 9) example_sdk_no_client example_world ''a.txt'' [] [])
       = Inr (failure ''no credentials'')
   \<and> fst (GcsDownloadFile (example_manager 9) example_sdk_no_client example_world ''a.txt''
            ''/tmp/a'' [] []) = Inr (failure ''no credentials'')
   \<and> fst (GcsGetFileByIdAsString (example_manager 9) example_sdk_no_client example_world ''a.txt'' [] [])
       = Inr (failure ''no credentials'')
   \<and> fst (GcsGetFileByIdAsStream (example_manager 9) example_sdk_no_client example_world ''a.txt'' [] [])
       = Inr (failure ''no credentials'')
   \<and> fst (GcsGetTemporaryPublicLink (example_manager 9) example_sdk_no_client example_world
            ''a.txt'' 0 [] [] 7) = Inr (failure ''no credentials'')
   \<and> fst (AwsGetFileById (example_manager 9) example_sdk example_world ''missing.txt'' [] 7)
       = Inr (failure ''NoSuchKey: The specified key does not exist.'')
   \<and> fst (AwsUpload (example_manager 9) example_sdk example_world (example_file ''a.txt'')
            [] ''nowhere'' ''u1'' 7)
       = Returns (Inr (failure ''NoSuchBucket: The specified bucket does not exist''))
   \<and> fst (GcsGetFileById (example_manager 9) example_sdk example_world ''missing.txt'' [] [])
       = Inr (failure ''Object missing.txt not found'')
   \<and> fst (GcsDelete (example_manager 9) example_sdk example_world ''a.txt'' ''nowhere'' [])
       = Inr (failure ''Bucket not found'')
   \<and> Status (failure ''Bucket not found'') = ''ERR''
   \<and> Message (failure ''Bucket not found'') = ''Bucket not found''"
  using sdk_failures_become_ERR [where f = "example_manager 9" and k = example_sdk_no_client
          and w = example_world and ?file = "example_file ''a.txt''" and data = "''hello''"
          and subdirectory = "[]" and bucketname = "[]" and projectID = "[]" and uuid = "''u1''"
          and now = 7 and now' = 8 and expiry = 0 and fileID = "''a.txt''"
          and saveAsPath = "''/tmp/a''" and err = "Errorf ''no credentials''"]
        sdk_failures_become_ERR [where f = "example_manager 9" and k = example_sdk
          and w = example_world and ?file = "example_file ''a.txt''" and data = "''hello''"
          and subdirectory = "[]" and bucketname = "[]" and projectID = "[]"
          and now = 7 and fileID = "''missing.txt''" and err = NoSuchKey]
        sdk_failures_become_ERR [where f = "example_manager 9" and k = example_sdk
          and w = example_world and ?file = "example_file ''a.txt''" and data = "''hello''"
          and subdirectory = "[]" and bucketname = "''nowhere''" and projectID = "[]"
          and uuid = "''u1''" and now = 7 and fileID = "''a.txt''" and err = NoSuchBucket]
        sdk_failures_become_ERR [where f = "example_manager 9" and k = example_sdk
          and w = example_world and bucketname = "[]" and projectID = "[]"
          and fileID = "''missing.txt''" and err = ErrObjectNotExist]
        sdk_failures_become_ERR [where f = "example_manager 9" and k = example_sdk
          and w = example_world and bucketname = "''nowhere''" and projectID = "[]"
          and fileID = "''a.txt''" and err = ErrBucketNotExist]
  by (simp add: example_store_defs NoSuchKey_def NoSuchBucket_def failure_def StatusError_def
        FileResponse_zero_def)

theorem upload_name_without_dot_witness:
  "(\<exists>info. info_of (fst (AwsUpload (example_manager 9) example_sdk example_world
                            (example_file ''README'') ''docs'' ''bucket'' ''u1'' 7)) = Some info
       \<and> FileName info = ''READM'' \<and> FileExt info = [])
   \<and> id_of (fst (AwsUpload (example_manager 9) example_sdk example_world
                    (example_file ''README'') ''docs'' ''bucket'' ''u1'' 7)) = Some ''docs/u1.''
   \<and> (\<exists>info. info_of (fst (GcsUpload (example_manager 9) example_sdk example_world
                            (example_file ''README'') ''docs'' ''bucket'' ''project'' ''u1'' 7)) = Some info
       \<and> FileName info = ''READM'' \<and> FileExt info = [])
   \<and> id_of (fst (GcsUpload (example_manager 9) example_sdk example_world
                    (example_file ''README'') ''docs'' ''bucket'' ''project'' ''u1'' 7)) = Some ''docs/u1.''
   \<and> (\<exists>info. info_of (fst (AwsUpload (example_manager 9) example_sdk example_world
                            (example_file ''dir/a.txt'') ''docs'' ''bucket'' ''u1'' 7)) = Some info
       \<and> FileName info @ ''.'' @ FileExt info = ''a.txt'')
   \<and> (\<exists>info. info_of (fst (GcsUpload (example_manager 9) example_sdk example_world
                            (example_file ''dir/a.txt'') ''docs'' ''bucket'' ''project'' ''u1'' 7)) = Some info
       \<and> FileName info @ ''.'' @ FileExt info = ''a.txt'')"
proof -
  let ?f = "example_manager 9"
  let ?obj = "\<lparr>Content = ''hello'', ContentType = ''text/plain'', Etag = ''tag'', Created = 7\<rparr>"
  have opened: "Open_err (example_file name) = None" "Read (example_file name) = Inr ''hello''" for name
    by (simp_all add: example_file_def)
  have base: "filepath_Base (Filename (example_file ''README'')) = ''README''"
    "filepath_Base (Filename (example_file ''dir/a.txt'')) = ''a.txt''"
    by (simp_all add: example_file_def filepath_Base_def)
  have key: "upload_key ''docs'' ''u1'' (example_file ''README'') = ''docs/u1.''"
    "upload_key ''docs'' ''u1'' (example_file ''dir/a.txt'') = ''docs/u1.txt''"
    by (simp_all add: upload_key_def base extension_of_def filepath_Ext_def)
  have aws: "GetAwsClient ?f example_sdk = Inr ()"
    "fst (s3_PutObject example_sdk example_world (aws_bucket ?f ''bucket'')
            (upload_key ''docs'' ''u1'' (example_file name)) ''hello''
            (ContentTypeHeader (example_file name)) 7) = None" for name
    by (simp_all add: GetAwsClient_def s3_PutObject_def aws_bucket_def example_sdk_def
          example_world_def)
  have gcs: "GetGcsClient ?f example_sdk ''project'' = Inr ()"
    "gcs_BucketAttrs example_sdk example_world (gcs_bucket ?f ''bucket'') = None"
    "gcs_Write example_sdk ''hello'' = None"
    by (simp_all add: GetGcsClient_def gcs_BucketAttrs_def gcs_Write_def gcs_bucket_def
          example_sdk_def example_world_def example_config_of example_config_def)
  have stored:
    "gcs_Close example_sdk example_world (gcs_bucket ?f ''bucket'')
       (upload_key ''docs'' ''u1'' (example_file name)) ''hello''
       (ContentTypeHeader (example_file name)) 7
     = (None, example_world\<lparr>gcs := [''bucket'' \<mapsto>
          [''a.txt'' \<mapsto> example_object,
           upload_key ''docs'' ''u1'' (example_file name) \<mapsto> ?obj]]\<rparr>)"
    "gcs_ObjectAttrs example_sdk
       (example_world\<lparr>gcs := [''bucket'' \<mapsto>
          [''a.txt'' \<mapsto> example_object,
           upload_key ''docs'' ''u1'' (example_file name) \<mapsto> ?obj]]\<rparr>)
       (gcs_bucket ?f ''bucket'') (upload_key ''docs'' ''u1'' (example_file name)) = Inr ?obj" for name
    by (simp_all add: gcs_Close_def gcs_ObjectAttrs_def gcs_bucket_def example_sdk_def
          example_world_def example_file_def)
  have plain: "CHR ''.'' \<notin> set (filepath_Base (Filename (example_file ''README'')))"
    and dotted: "CHR ''.'' \<in> set (filepath_Base (Filename (example_file ''dir/a.txt'')))"
    by (simp_all add: base)
  note T = upload_name_without_dot [OF opened, where f = ?f and k = example_sdk
      and w = example_world and subdirectory = "''docs''" and bucketname = "''bucket''"
      and projectID = "''project''" and uuid = "''u1''" and now = 7 and attrs = ?obj]
  from T [where name1 = "''README''", THEN conjunct1] aws plain
  have a1: "(\<exists>info. info_of (fst (AwsUpload ?f example_sdk example_world
                            (example_file ''README'') ''docs'' ''bucket'' ''u1'' 7)) = Some info
       \<and> FileName info = ''READM'' \<and> FileExt info = [])
     \<and> id_of (fst (AwsUpload ?f example_sdk example_world
                    (example_file ''README'') ''docs'' ''bucket'' ''u1'' 7)) = Some ''docs/u1.''"
    by (auto simp add: base)
  from T [where name1 = "''dir/a.txt''", THEN conjunct2, THEN conjunct1] aws dotted
  have a2: "\<exists>info. info_of (fst (AwsUpload ?f example_sdk example_world
                            (example_file ''dir/a.txt'') ''docs'' ''bucket'' ''u1'' 7)) = Some info
       \<and> FileName info @ ''.'' @ FileExt info = ''a.txt''"
    by (auto simp add: base)
  from T [where name1 = "''README''" and w' = "example_world\<lparr>gcs := [''bucket'' \<mapsto>
          [''a.txt'' \<mapsto> example_object,
           upload_key ''docs'' ''u1'' (example_file ''README'') \<mapsto> ?obj]]\<rparr>",
        THEN conjunct2, THEN conjunct2, THEN conjunct1]
    gcs stored [of "''README''"] plain
  have g1: "(\<exists>info. info_of (fst (GcsUpload ?f example_sdk example_world
                            (example_file ''README'') ''docs'' ''bucket'' ''project'' ''u1'' 7)) = Some info
       \<and> FileName info = ''READM'' \<and> FileExt info = [])
     \<and> id_of (fst (GcsUpload ?f example_sdk example_world
                    (example_file ''README'') ''docs'' ''bucket'' ''project'' ''u1'' 7)) = Some ''docs/u1.''"
    by (auto simp add: base)
  from T [where name1 = "''dir/a.txt''" and w' = "example_world\<lparr>gcs := [''bucket'' \<mapsto>
          [''a.txt'' \<mapsto> example_object,
           upload_key ''docs'' ''u1'' (example_file ''dir/a.txt'') \<mapsto> ?obj]]\<rparr>",
        THEN conjunct2, THEN conjunct2, THEN conjunct2]
    gcs stored [of "''dir/a.txt''"] dotted
  have g2: "\<exists>info. info_of (fst (GcsUpload ?f example_sdk example_world
                            (example_file ''dir/a.txt'') ''docs'' ''bucket'' ''project'' ''u1'' 7)) = Some info
       \<and> FileName info @ ''.'' @ FileExt info = ''a.txt''"
    by (auto simp add: base)
  from a1 a2 g1 g2 show ?thesis
    by blast
qed

end
